theory Spec2Isabelle
  imports Complex_Main
begin

section \<open>Python values and string helpers\<close>

text \<open>
  The scorer works on Python \<open>str\<close> values and on numbers. Transcripts are modelled as
  ASCII strings (\<^typ>\<open>string\<close>); a character outside ASCII is treated as a symbol that is
  neither a letter, a digit nor white space. Python's floats are modelled by exact real
  numbers: the functions named after those of \<open>scorer.py\<close> give the value that a call
  returns, computed without the rounding of the binary representation. Where that rounding
  decides whether a call returns at all, the call is modelled separately, with the
  exception that it raises (\<open>call_speech_rate_score\<close>, \<open>call_evaluate_transcript\<close>).
\<close>

datatype py_value =
    PyNone
  | PyBool bool
  | PyInt int
  | PyFloat real
  | PyStr string
  | PyList "py_value list"

text \<open>Truth value of a Python object, as used by \<open>not transcript\<close>.\<close>

fun truthy :: "py_value \<Rightarrow> bool" where
  "truthy PyNone = False"
| "truthy (PyBool b) = b"
| "truthy (PyInt i) = (i \<noteq> 0)"
| "truthy (PyFloat x) = (x \<noteq> 0)"
| "truthy (PyStr s) = (s \<noteq> [])"
| "truthy (PyList xs) = (xs \<noteq> [])"

text \<open>\<open>isinstance(v, str)\<close>\<close>

fun is_str :: "py_value \<Rightarrow> bool" where
  "is_str (PyStr s) = True"
| "is_str _ = False"

fun the_str :: "py_value \<Rightarrow> string" where
  "the_str (PyStr s) = s"
| "the_str _ = []"

text \<open>
  The truth test of the values above returns. An argument of a call can also be an object
  whose truth test raises: a pandas \<open>DataFrame\<close>, the class of the rubric that
  \<open>execution.py\<close> passes beside the transcript, raises \<open>ValueError\<close> in \<open>bool(x)\<close>
  whatever it holds. It is not a \<open>str\<close>.
\<close>

datatype py_argument = PyValue py_value | PyDataFrame

text \<open>The exceptions that the scorer can raise.\<close>

datatype py_error = ValueError | ZeroDivisionError

definition code_of :: "char \<Rightarrow> nat" where
  "code_of c = of_char c"

definition is_upper :: "char \<Rightarrow> bool" where
  "is_upper c = (65 \<le> code_of c \<and> code_of c \<le> 90)"

definition is_lower :: "char \<Rightarrow> bool" where
  "is_lower c = (97 \<le> code_of c \<and> code_of c \<le> 122)"

definition is_digit :: "char \<Rightarrow> bool" where
  "is_digit c = (48 \<le> code_of c \<and> code_of c \<le> 57)"

text \<open>\<open>\w\<close>: letters, digits and the underscore.\<close>

definition is_word :: "char \<Rightarrow> bool" where
  "is_word c = (is_lower c \<or> is_upper c \<or> is_digit c \<or> code_of c = 95)"

text \<open>\<open>\s\<close> and \<open>str.isspace\<close>: tab, line feed, vertical tab, form feed, carriage return,
  the four separators 28..31 and the blank.\<close>

definition is_space :: "char \<Rightarrow> bool" where
  "is_space c = ((9 \<le> code_of c \<and> code_of c \<le> 13) \<or> (28 \<le> code_of c \<and> code_of c \<le> 32))"

text \<open>An upper-case letter becomes lower-case by setting the bit of value 32.\<close>

definition to_lower :: "char \<Rightarrow> char" where
  "to_lower c =
     (if is_upper c
      then (case c of Char b0 b1 b2 b3 b4 b5 b6 b7 \<Rightarrow> Char b0 b1 b2 b3 b4 True b6 b7)
      else c)"

text \<open>\<open>text.lower()\<close>\<close>

definition lower :: "string \<Rightarrow> string" where
  "lower s = map to_lower s"

text \<open>\<open>s.strip()\<close>\<close>

definition strip :: "string \<Rightarrow> string" where
  "strip s = rev (dropWhile is_space (rev (dropWhile is_space s)))"

text \<open>\<open>round(x, n)\<close>: rounding to \<open>n\<close> decimal places, ties to the even neighbour. It is
  applied to the exact value; Python applies it to the float that stands for the value,
  which lies beside a tie where the exact value lies on it, so that the last digit of a
  rounded detail can differ there (\<open>round(0.15, 1)\<close> is \<open>0.1\<close> in Python).\<close>

definition round_half_even :: "real \<Rightarrow> int" where
  "round_half_even x =
     (let f = \<lfloor>x\<rfloor>; d = x - of_int f
      in if d < 1/2 then f else if 1/2 < d then f + 1 else if even f then f else f + 1)"

definition py_round :: "real \<Rightarrow> nat \<Rightarrow> real" where
  "py_round x n = of_int (round_half_even (x * 10 ^ n)) / 10 ^ n"

text \<open>\<open>str(n)\<close> for a natural number, used by the f-string of \<open>filler_word_score\<close>.\<close>

fun str_of_nat :: "nat \<Rightarrow> string" where
  "str_of_nat n =
     (if n < 10 then [''0123456789'' ! n]
      else str_of_nat (n div 10) @ [''0123456789'' ! (n mod 10)])"

section \<open>The regular expressions of the scorer\<close>

text \<open>
  The patterns of \<open>scorer.py\<close> use literals, the classes \<open>\d\<close>, \<open>\s\<close>, \<open>\w\<close> and
  \<open>[.!?]\<close>, the word boundary \<open>\b\<close>, greedy \<open>+\<close> and \<open>*\<close> on a class, concatenation
  and alternation. (The one back-reference, in \<open>grammar_score\<close>, is treated there.)
\<close>

datatype cclass = Digit | Space | Word | OneOf string

datatype regex =
    Lit string
  | Cls cclass
  | Bound
  | Plus cclass
  | Star cclass
  | Cat regex regex
  | Alt regex regex

fun in_class :: "cclass \<Rightarrow> char \<Rightarrow> bool" where
  "in_class Digit c = is_digit c"
| "in_class Space c = is_space c"
| "in_class Word c = is_word c"
| "in_class (OneOf cs) c = (c \<in> set cs)"

text \<open>
  A cursor is a position in the text during a match: the number of characters the match
  has consumed so far, whether the character before the cursor is a word character
  (\<open>False\<close> at the start of the text), and the rest of the text from there.
\<close>

type_synonym cursor = "nat \<times> bool \<times> string"

text \<open>Does a word character follow the cursor?\<close>

fun word_ahead :: "string \<Rightarrow> bool" where
  "word_ahead [] = False"
| "word_ahead (c # s) = is_word c"

text \<open>Matching a literal at the cursor.\<close>

fun lit_at :: "string \<Rightarrow> nat \<Rightarrow> bool \<Rightarrow> string \<Rightarrow> cursor list" where
  "lit_at [] n w s = [(n, w, s)]"
| "lit_at (x # xs) n w [] = []"
| "lit_at (x # xs) n w (c # s) = (if x = c then lit_at xs (Suc n) (is_word c) s else [])"

text \<open>A greedy run of characters of a class: the longest run first, then the shorter ones,
  down to the empty run.\<close>

fun star_at :: "cclass \<Rightarrow> nat \<Rightarrow> bool \<Rightarrow> string \<Rightarrow> cursor list" where
  "star_at k n w [] = [(n, w, [])]"
| "star_at k n w (c # s) =
     (if in_class k c then star_at k (Suc n) (is_word c) s @ [(n, w, c # s)]
      else [(n, w, c # s)])"

text \<open>
  \<open>ends r n w s\<close>: the cursors at which a match of \<open>r\<close> that has reached the cursor
  \<open>(n, w, s)\<close> can end, in the order in which the backtracking matcher of Python's \<open>re\<close>
  tries them. The match that \<open>re\<close> reports is the first of the list.
\<close>

fun ends :: "regex \<Rightarrow> nat \<Rightarrow> bool \<Rightarrow> string \<Rightarrow> cursor list" where
  "ends (Lit l) n w s = lit_at l n w s"
| "ends (Cls k) n w [] = []"
| "ends (Cls k) n w (c # s) = (if in_class k c then [(Suc n, is_word c, s)] else [])"
| "ends Bound n w s = (if w \<noteq> word_ahead s then [(n, w, s)] else [])"
| "ends (Plus k) n w [] = []"
| "ends (Plus k) n w (c # s) = (if in_class k c then star_at k (Suc n) (is_word c) s else [])"
| "ends (Star k) n w s = star_at k n w s"
| "ends (Cat a b) n w s = concat (map (\<lambda>(n', w', s'). ends b n' w' s') (ends a n w s))"
| "ends (Alt a b) n w s = ends a n w s @ ends b n w s"

text \<open>\<open>re.search(p, text)\<close>: the scan for the leftmost position with a match. The scorer
  only asks whether there is one.\<close>

fun search_at :: "regex \<Rightarrow> bool \<Rightarrow> string \<Rightarrow> bool" where
  "search_at r w [] = (ends r 0 w [] \<noteq> [])"
| "search_at r w (c # s) = (ends r 0 w (c # s) \<noteq> [] \<or> search_at r (is_word c) s)"

definition re_search :: "regex \<Rightarrow> string \<Rightarrow> bool" where
  "re_search r t = search_at r False t"

text \<open>
  \<open>re.finditer\<close>: the non-overlapping matches from left to right, each as its start offset
  and its matched text. \<open>scan m w s i k\<close> is at offset \<open>i\<close> of the text, with \<open>s\<close> left;
  \<open>k\<close> is the number of characters that still belong to the match found last, where no
  new match may start. The matcher \<open>m\<close> is tried at every other position; after a match of
  \<open>n\<close> characters the next \<open>n - 1\<close> positions are passed over, and after an empty match
  the scan goes on at the next character. No pattern that the scorer scans a text for can
  match the empty string (lemmas \<open>ends_progress\<close>, \<open>scanned_patterns_consume\<close> and
  \<open>repeated_word_progress\<close> below), so \<open>re\<close>'s own treatment of empty matches does not
  come into play.
\<close>

fun scan :: "(bool \<Rightarrow> string \<Rightarrow> cursor list) \<Rightarrow> bool \<Rightarrow> string \<Rightarrow> nat \<Rightarrow> nat \<Rightarrow> (nat \<times> string) list" where
  "scan m w [] i (Suc k) = []"
| "scan m w [] i 0 = (case m w [] of [] \<Rightarrow> [] | e # es \<Rightarrow> [(i, [])])"
| "scan m w (c # s) i (Suc k) = scan m (is_word c) s (Suc i) k"
| "scan m w (c # s) i 0 =
     (case m w (c # s) of
        [] \<Rightarrow> scan m (is_word c) s (Suc i) 0
      | (n, w', s') # es \<Rightarrow> (i, take n (c # s)) # scan m (is_word c) s (Suc i) (n - 1))"

definition re_finditer :: "regex \<Rightarrow> string \<Rightarrow> (nat \<times> string) list" where
  "re_finditer r t = scan (ends r 0) False t 0 0"

text \<open>\<open>re.findall(p, text)\<close> for a pattern without groups: the matched texts.\<close>

definition re_findall :: "regex \<Rightarrow> string \<Rightarrow> string list" where
  "re_findall r t = map snd (re_finditer r t)"

text \<open>\<open>re.split(p, text)\<close>: the pieces of the text between the matches.\<close>

fun pieces :: "(nat \<times> string) list \<Rightarrow> string \<Rightarrow> nat \<Rightarrow> string list" where
  "pieces [] t pos = [drop pos t]"
| "pieces ((i, m) # ms) t pos = take (i - pos) (drop pos t) # pieces ms t (i + length m)"

definition re_split :: "regex \<Rightarrow> string \<Rightarrow> string list" where
  "re_split r t = pieces (re_finditer r t) t 0"

text \<open>Building patterns: \<open>seq [a, b, c]\<close> is the concatenation \<open>abc\<close>, and \<open>\bp\b\<close> is
  \<open>bounded p\<close>.\<close>

fun seq :: "regex list \<Rightarrow> regex" where
  "seq [] = Lit []"
| "seq [r] = r"
| "seq (r # rs) = Cat r (seq rs)"

definition bounded :: "regex \<Rightarrow> regex" where
  "bounded r = Cat Bound (Cat r Bound)"

text \<open>Patterns every match of which takes at least one character.\<close>

fun consumes :: "regex \<Rightarrow> bool" where
  "consumes (Lit l) = (l \<noteq> [])"
| "consumes (Cls k) = True"
| "consumes Bound = False"
| "consumes (Plus k) = True"
| "consumes (Star k) = False"
| "consumes (Cat a b) = (consumes a \<or> consumes b)"
| "consumes (Alt a b) = (consumes a \<and> consumes b)"

text \<open>The word tokens of a text, \<open>re.findall(r"\w+", text)\<close>.\<close>

definition word_tokens :: "string \<Rightarrow> string list" where
  "word_tokens text = re_findall (Plus Word) text"

section \<open>Constants and configuration\<close>

text \<open>\<open>KEYWORD_MAP\<close>: the patterns of each concept, in the order of the source.\<close>

definition KEYWORD_MAP :: "(string \<times> regex list) list" where
  "KEYWORD_MAP =
    [(''name'', [Lit ''name is'', Lit ''my name is'', Lit ''i am'', Lit ''myself'',
                 bounded (Lit ''this is''), bounded (Lit ''my name'')]),
     (''age'', [Lit ''age'', Lit ''years old'',
                bounded (seq [Plus Digit, Star Space, Lit ''years'', Star Space, Lit ''old'']),
                bounded (seq [Lit ''i am '', Plus Digit]),
                bounded (seq [Lit ''I'', Lit [CHR 0x27], Lit ''m '', Plus Digit])]),
     (''school'', [Lit ''school'', Lit ''student of'', Lit ''study in'', Lit ''studying in'',
                   Lit ''class of'']),
     (''class'', [Lit ''class'', Lit ''grade'', Lit ''standard'', bounded (Lit ''8th''),
                  bounded (Lit ''9th''), bounded (Lit ''10th'')]),
     (''family'', [Lit ''family'', Lit ''parents'', Lit ''mother'', Lit ''father'',
                   Lit ''brother'', Lit ''sister'',
                   bounded (seq [Lit ''we '', Alt (Lit ''are'') (Lit (CHR 0x27 # ''re'')),
                                 Lit '' '', Plus Digit, Lit '' people''])]),
     (''hobby'', [Lit ''hobby'', Lit ''hobbies'', Lit ''like to'', Lit ''love to'', Lit ''enjoy'',
                  Lit ''playing'', Lit ''play'']),
     (''interest'', [Lit ''interest'', Lit ''passionate'', Lit ''fan of'', Lit ''interested in'']),
     (''goal'', [Lit ''goal'', Lit ''ambition'', Lit ''dream'', Lit ''want to be'',
                 Lit ''i want to'']),
     (''fun_fact'', [Lit ''fun fact'', Lit ''once'', Lit ''secret'',
                     Lit (''don'' @ CHR 0x27 # ''t know''), Lit ''dont know'',
                     Lit ''surprising''])]"

text \<open>\<open>KEYWORD_MAP.get(k, [])\<close>; \<open>KEYWORD_MAP[k]\<close> is only used with keys of the table.\<close>

definition keyword_patterns :: "string \<Rightarrow> regex list" where
  "keyword_patterns k = (case map_of KEYWORD_MAP k of None \<Rightarrow> [] | Some ps \<Rightarrow> ps)"

text \<open>\<open>FILLER_WORDS\<close>. The source holds them in a set; the order in which a set is
  enumerated only shows in the order of the \<open>found\<close> entries of the details.\<close>

definition FILLER_WORDS :: "string list" where
  "FILLER_WORDS =
    [''um'', ''uh'', ''like'', ''you know'', ''so'', ''actually'', ''basically'', ''right'',
     ''i mean'', ''well'', ''kinda'', ''sort of'', ''okay'', ''hmm'', ''ah'', ''erm'', ''huh'']"

text \<open>\<open>SALUTATIONS\<close>, by tier.\<close>

definition SALUTATIONS_excellent :: "regex list" where
  "SALUTATIONS_excellent =
    [Lit ''i am excited to introduce'', Lit ''feeling great'',
     Lit (''i'' @ CHR 0x27 # ''m excited''), Lit ''i am excited'']"

definition SALUTATIONS_good :: "regex list" where
  "SALUTATIONS_good =
    [Lit ''good morning'', Lit ''good afternoon'', Lit ''good evening'', Lit ''good day'',
     Lit ''hello everyone'']"

definition SALUTATIONS_normal :: "regex list" where
  "SALUTATIONS_normal = [bounded (Lit ''hi''), bounded (Lit ''hello'')]"

section \<open>Helper functions\<close>

definition lower_and_clean :: "string \<Rightarrow> string" where
  "lower_and_clean text = lower text"

text \<open>The loop \<open>for p in patterns: if re.search(p, t): return True\<close>.\<close>

fun any_search :: "regex list \<Rightarrow> string \<Rightarrow> bool" where
  "any_search [] t = False"
| "any_search (p # ps) t = (if re_search p t then True else any_search ps t)"

definition find_any_pattern :: "string \<Rightarrow> regex list \<Rightarrow> bool" where
  "find_any_pattern text patterns = (let text_l = lower text in any_search patterns text_l)"

section \<open>Scoring functions\<close>

text \<open>The diagnostic details that accompany each score.\<close>

datatype details =
    SalutationDetails string
  | KeywordDetails (found_must: "string list") (found_optional: "string list") (raw_score: real)
  | FlowReason string
  | FlowPairs (correct_pairs: nat) (total_pairs: nat)
  | SpeechDetails (wpm: real) (word_count: nat) (duration: real)
  | GrammarDetails (errors_detected: nat) (rate_per_100: real)
  | NoDetails
  | VocabDetails (ttr: real)
  | FillerDetails (rate_percent: real) (filler_count: nat) (found: "string list")
  | SentimentDetails (compound: real) (method_name: string)

definition detect_salutation_level :: "string \<Rightarrow> real \<times> details" where
  "detect_salutation_level text =
     (let t = lower_and_clean text
      in if any_search SALUTATIONS_excellent t then (5, SalutationDetails ''Excellent'')
         else if any_search SALUTATIONS_good t then (4, SalutationDetails ''Good'')
         else if any_search SALUTATIONS_normal t then (2, SalutationDetails ''Normal'')
         else (0, SalutationDetails ''No salutation detected''))"

definition must :: "string list" where
  "must = [''name'', ''age'', ''school'', ''class'', ''family'', ''hobby'']"

definition optional :: "string list" where
  "optional = [''goal'', ''fun_fact'', ''interest'']"

definition keyword_presence_score :: "string \<Rightarrow> real \<Rightarrow> real \<times> details" where
  "keyword_presence_score text weight =
     (let t = lower_and_clean text;
          found_must_list = filter (\<lambda>k. find_any_pattern t (keyword_patterns k)) must;
          found_opt_list = filter (\<lambda>k. find_any_pattern t (keyword_patterns k)) optional;
          found_must = length found_must_list;
          found_opt = length found_opt_list;
          must_score = (if must \<noteq> [] then (real found_must / real (length must)) * 20 else 0);
          opt_score = (if optional \<noteq> [] then (real found_opt / real (length optional)) * 10 else 0);
          raw_score = must_score + opt_score;
          final_score = min raw_score weight
      in (final_score, KeywordDetails found_must_list found_opt_list raw_score))"

text \<open>The four groups of \<open>flow_score\<close>, in the order of \<open>groups_map\<close>.\<close>

definition groups_map :: "(string \<times> regex list) list" where
  "groups_map =
    [(''sal'', SALUTATIONS_good @ SALUTATIONS_normal @ SALUTATIONS_excellent),
     (''basic'', keyword_patterns ''name'' @ keyword_patterns ''age'' @
                 keyword_patterns ''class'' @ keyword_patterns ''school''),
     (''add'', keyword_patterns ''hobby'' @ keyword_patterns ''interest'' @
               keyword_patterns ''goal'' @ keyword_patterns ''fun_fact''),
     (''end'', [Lit ''thank you'', Lit ''thanks'', Lit ''thankyou'',
                Lit (''that'' @ CHR 0x27 # ''s all'')])]"

text \<open>The inner loops: the start offsets of all matches of all patterns of a group.\<close>

fun match_starts :: "regex list \<Rightarrow> string \<Rightarrow> nat list" where
  "match_starts [] t = []"
| "match_starts (p # ps) t = map fst (re_finditer p t) @ match_starts ps t"

text \<open>The average position of a group, \<open>None\<close> when it has no match.\<close>

definition average_position :: "nat list \<Rightarrow> real option" where
  "average_position indices =
     (if indices \<noteq> [] then Some (real (sum_list indices) / real (length indices)) else None)"

definition group_positions :: "string \<Rightarrow> (string \<times> real option) list" where
  "group_positions t = map (\<lambda>(group_name, patterns). (group_name, average_position (match_starts patterns t))) groups_map"

text \<open>\<open>positions[k]\<close>; every key that is looked up has been stored.\<close>

definition position_of :: "(string \<times> real option) list \<Rightarrow> string \<Rightarrow> real option" where
  "position_of positions k = (case map_of positions k of None \<Rightarrow> None | Some v \<Rightarrow> v)"

definition sequence :: "string list" where
  "sequence = [''sal'', ''basic'', ''add'', ''end'']"

text \<open>One pass of the body of the double loop, on the counters
  \<open>(correct_pairs, total_pairs)\<close>.\<close>

definition count_pair :: "(string \<times> real option) list \<Rightarrow> nat \<times> nat \<Rightarrow> nat \<times> nat \<Rightarrow> nat \<times> nat" where
  "count_pair positions ij acc =
     (case (position_of positions (sequence ! fst ij), position_of positions (sequence ! snd ij)) of
        (Some pos1, Some pos2) \<Rightarrow>
          (if pos1 < pos2 then (Suc (fst acc), Suc (snd acc)) else (fst acc, Suc (snd acc)))
      | _ \<Rightarrow> acc)"

text \<open>\<open>for i in range(len(sequence)): for j in range(i+1, len(sequence))\<close>\<close>

definition loop_pairs :: "(nat \<times> nat) list" where
  "loop_pairs =
     concat (map (\<lambda>i. map (\<lambda>j. (i, j)) [i + 1 ..< length sequence]) [0 ..< length sequence])"

definition flow_score :: "string \<Rightarrow> real \<Rightarrow> real \<times> details" where
  "flow_score text weight =
     (let t = lower_and_clean text;
          positions = group_positions t;
          (correct_pairs, total_pairs) = fold (count_pair positions) loop_pairs (0, 0)
      in if total_pairs = 0
         then (if position_of positions ''basic'' \<noteq> None
               then (3, FlowReason ''Short text, basic info found'')
               else (0, FlowReason ''No structure detected''))
         else ((real correct_pairs / real total_pairs) * weight,
               FlowPairs correct_pairs total_pairs))"

definition speech_rate_score :: "string \<Rightarrow> real \<Rightarrow> real \<Rightarrow> real \<times> details" where
  "speech_rate_score text duration_seconds weight =
     (let words = length (word_tokens text);
          duration_seconds = (if duration_seconds \<le> 0 then 52 else duration_seconds);
          wpm = real words / (duration_seconds / 60);
          score = (if 111 \<le> wpm \<and> wpm \<le> 140 then 10
                   else if (81 \<le> wpm \<and> wpm < 111) \<or> (141 \<le> wpm \<and> wpm \<le> 160) then 6
                   else 2)
      in (score, SpeechDetails (py_round wpm 1) words duration_seconds))"

text \<open>
  The division \<open>words / (duration_seconds / 60.0)\<close> raises \<open>ZeroDivisionError\<close> when the
  float \<open>duration_seconds / 60.0\<close> is \<open>0.0\<close>. The smallest positive float is
  1 / 2 ^ 1074 (printed \<open>5e-324\<close>), and a quotient is rounded to the nearest float, a tie
  going to the neighbour with the even last bit: the quotient is \<open>0.0\<close> exactly when its
  exact value is at most half of the smallest positive float.
\<close>

definition smallest_float :: real where
  "smallest_float = 1 / 2 ^ 1074"

definition rounds_to_zero :: "real \<Rightarrow> bool" where
  "rounds_to_zero q = (\<bar>q\<bar> \<le> smallest_float / 2)"

text \<open>A call of \<open>speech_rate_score\<close>: the exception it raises, or the value it returns.\<close>

definition call_speech_rate_score :: "string \<Rightarrow> real \<Rightarrow> real \<Rightarrow> py_error + real \<times> details" where
  "call_speech_rate_score text duration_seconds weight =
     (let duration = (if duration_seconds \<le> 0 then 52 else duration_seconds)
      in if rounds_to_zero (duration / 60) then Inl ZeroDivisionError
         else Inr (speech_rate_score text duration_seconds weight))"

text \<open>
  The pattern \<open>\b(\w+)\s+\1\b\<close> of \<open>grammar_score\<close>: for each way in which the group
  \<open>(\w+)\<close> can match, the rest of the pattern is matched with the text of the group in
  the place of \<open>\1\<close>.
\<close>

definition repeated_word_ends :: "bool \<Rightarrow> string \<Rightarrow> cursor list" where
  "repeated_word_ends w s =
     (if w \<noteq> word_ahead s
      then concat (map (\<lambda>(n, w', s'). ends (seq [Plus Space, Lit (take n s), Bound]) n w' s')
                       (ends (Plus Word) 0 w s))
      else [])"

definition grammar_score :: "string \<Rightarrow> real \<Rightarrow> real \<times> details" where
  "grammar_score text weight =
     (let sentences = re_split (Plus (OneOf ''.!?'')) text;
          sentences = map strip (filter (\<lambda>s. strip s \<noteq> []) sentences);
          num_sentences = max 1 (length sentences);
          errors = length (filter (\<lambda>s. s \<noteq> [] \<and> is_lower (hd s)) sentences);
          errors = errors + length (re_findall (seq [Plus Space, Lit ''i'', Plus Space])
                                               ('' '' @ text @ '' ''));
          errors = errors + length (scan repeated_word_ends False (lower text) 0 0);
          estimated_words = (if length (word_tokens text) \<noteq> 0 then length (word_tokens text)
                             else num_sentences * 10);
          errors_per_100 = (real errors / real estimated_words) * 100;
          score_ratio = 1 - min (errors_per_100 / 10) 1;
          final_score = score_ratio * weight
      in (final_score, GrammarDetails errors (py_round errors_per_100 2)))"

definition vocab_ttr_score :: "string \<Rightarrow> real \<Rightarrow> real \<times> details" where
  "vocab_ttr_score text weight =
     (let words = word_tokens (lower text);
          total = length words
      in if total = 0 then (0, NoDetails)
         else let distinct = card (set words);
                  ttr = real distinct / real total;
                  score = (if ttr \<ge> 9/10 then weight
                           else if ttr \<ge> 7/10 then 8/10 * weight
                           else if ttr \<ge> 5/10 then 6/10 * weight
                           else if ttr \<ge> 3/10 then 4/10 * weight
                           else 2/10 * weight)
              in (score, VocabDetails (py_round ttr 2)))"

text \<open>The loop over the fillers, on \<open>(filler_count, found_fillers)\<close>.\<close>

definition count_filler :: "string \<Rightarrow> string \<Rightarrow> nat \<times> string list \<Rightarrow> nat \<times> string list" where
  "count_filler text filler acc =
     (let matches = re_findall (bounded (Lit filler)) (lower text);
          count = length matches
      in if count > 0
         then (fst acc + count, snd acc @ [filler @ '' ('' @ str_of_nat count @ '')''])
         else acc)"

definition filler_word_score :: "string \<Rightarrow> real \<Rightarrow> real \<times> details" where
  "filler_word_score text weight =
     (let words = word_tokens (lower text);
          total_words = length words
      in if total_words = 0 then (0, NoDetails)
         else let (filler_count, found_fillers) = fold (count_filler text) FILLER_WORDS (0, []);
                  rate = (real filler_count / real total_words) * 100;
                  score = (if rate \<le> 3 then weight
                           else if rate \<le> 6 then 12
                           else if rate \<le> 9 then 9
                           else if rate \<le> 12 then 6
                           else 3)
              in (score, FillerDetails (py_round rate 2) filler_count found_fillers))"

text \<open>
  The sentiment backend is the module-level \<open>_vader\<close>: either the analyzer of the
  \<open>vaderSentiment\<close> library, of which only the compound score it gives to a text is used,
  or \<open>None\<close> when the library is not installed.
\<close>

type_synonym backend = "(string \<Rightarrow> real) option"

definition pos_words :: "string set" where
  "pos_words = {''excited'', ''love'', ''great'', ''good'', ''happy'', ''enjoy'', ''confident'',
                ''passion'', ''thank''}"

definition neg_words :: "string set" where
  "neg_words = {''hate'', ''bad'', ''boring'', ''sad'', ''nervous''}"

definition sentiment_score :: "backend \<Rightarrow> string \<Rightarrow> real \<Rightarrow> real \<times> details" where
  "sentiment_score vader text weight =
     (let (compound, method_name) =
            (case vader of
               Some polarity \<Rightarrow> (polarity text, ''VADER'')
             | None \<Rightarrow>
                 (let tokens = set (word_tokens (lower text));
                      pos_hits = card (tokens \<inter> pos_words);
                      neg_hits = card (tokens \<inter> neg_words)
                  in (if pos_hits > neg_hits then 6/10
                      else if neg_hits > pos_hits then - (3/10)
                      else 0, ''Heuristic'')));
          score = (if compound \<ge> 5/10 then weight
                   else if compound \<ge> 3/10 then 12
                   else if compound \<ge> 0 then 9
                   else if compound \<ge> - (2/10) then 6
                   else 3)
      in (score, SentimentDetails compound method_name))"

section \<open>Main entry point\<close>

record criterion =
  name :: string
  score :: real
  weight :: real
  details :: details

definition mk_criterion :: "string \<Rightarrow> real \<times> details \<Rightarrow> real \<Rightarrow> criterion" where
  "mk_criterion nm sd wt = \<lparr>name = nm, score = fst sd, weight = wt, details = snd sd\<rparr>"

text \<open>
  \<open>evaluate_transcript(transcript, rubric_df, duration_seconds)\<close>, with the sentiment
  backend of the module as a further argument. The rubric may be any value.
\<close>

definition evaluate_transcript ::
  "backend \<Rightarrow> py_value \<Rightarrow> 'rubric \<Rightarrow> real \<Rightarrow> real \<times> criterion list" where
  "evaluate_transcript vader transcript rubric_df duration_seconds =
     (if \<not> truthy transcript \<or> \<not> is_str transcript then (0, [])
      else
        let text = the_str transcript;
            criteria_list =
              [mk_criterion ''Salutation Level'' (detect_salutation_level text) 5,
               mk_criterion ''Keyword Presence'' (keyword_presence_score text 30) 30,
               mk_criterion ''Flow (Order)'' (flow_score text 5) 5,
               mk_criterion ''Speech Rate (WPM)'' (speech_rate_score text duration_seconds 10) 10,
               mk_criterion ''Grammar Errors'' (grammar_score text 10) 10,
               mk_criterion ''Vocabulary (TTR)'' (vocab_ttr_score text 10) 10,
               mk_criterion ''Filler Word Rate'' (filler_word_score text 15) 15,
               mk_criterion ''Sentiment'' (sentiment_score vader text 15) 15];
            total_score = sum_list (map score criteria_list)
        in (total_score, criteria_list))"

text \<open>
  A call of \<open>evaluate_transcript\<close>: the exception it raises, or the value it returns.
  The guard evaluates \<open>not transcript\<close> before \<open>isinstance(transcript, str)\<close>, so the truth
  test of the argument comes first; of the eight analyzers only \<open>speech_rate_score\<close> can
  raise.
\<close>

fun call_evaluate_transcript ::
  "backend \<Rightarrow> py_argument \<Rightarrow> 'rubric \<Rightarrow> real \<Rightarrow> py_error + real \<times> criterion list" where
  "call_evaluate_transcript vader PyDataFrame rubric_df duration_seconds = Inl ValueError"
| "call_evaluate_transcript vader (PyValue transcript) rubric_df duration_seconds =
     (if \<not> truthy transcript \<or> \<not> is_str transcript then Inr (0, [])
      else case call_speech_rate_score (the_str transcript) duration_seconds 10 of
             Inl e \<Rightarrow> Inl e
           | Inr speech \<Rightarrow> Inr (evaluate_transcript vader transcript rubric_df duration_seconds))"

text \<open>The sample of the \<open>__main__\<close> block.\<close>

definition sample_text :: string where
  "sample_text =
     ''Hello everyone, I am excited to introduce myself. '' @
     ''My name is Rahul and I study in class 10 at Delhi Public School. '' @
     ''I am 15 years old and live with my family which includes my parents and younger sister. '' @
     ''My hobby is playing chess and I have a strong interest in coding. '' @
     ''A fun fact about me is that I can solve a cube in under a minute. '' @
     ''My goal is to become a software engineer. Thank you for listening.''"

section \<open>The analyzers as the specification words them\<close>

text \<open>
  The definitions of this section do not come from the code. They state the bands and
  the flow order in the words of the specification, to be compared with the functions
  above.
\<close>

text \<open>Filler rate: at most 3 gives 15, at most 6 gives 12, at most 9 gives 9, at most 12
  gives 6, more gives 3.\<close>

definition filler_band :: "real \<Rightarrow> real" where
  "filler_band rate =
     (if rate \<le> 3 then 15 else if rate \<le> 6 then 12 else if rate \<le> 9 then 9
      else if rate \<le> 12 then 6 else 3)"

text \<open>The whole-word occurrences of all fillers in the lower-cased text.\<close>

definition filler_occurrences :: "string \<Rightarrow> nat" where
  "filler_occurrences text =
     sum_list (map (\<lambda>filler. length (re_findall (bounded (Lit filler)) (lower text))) FILLER_WORDS)"

text \<open>Flow: the anchor of a group is the average offset of all matches of all its
  patterns, and is undefined when there is none.\<close>

definition group_patterns :: "string \<Rightarrow> regex list" where
  "group_patterns g = (case map_of groups_map g of None \<Rightarrow> [] | Some ps \<Rightarrow> ps)"

definition all_offsets :: "regex list \<Rightarrow> string \<Rightarrow> nat list" where
  "all_offsets ps t = concat (map (\<lambda>p. map fst (re_finditer p t)) ps)"

definition anchor :: "string \<Rightarrow> string \<Rightarrow> real option" where
  "anchor g t =
     (let offsets = all_offsets (group_patterns g) t
      in if offsets = [] then None
         else Some (real (sum_list offsets) / real (length offsets)))"

text \<open>The six ordered pairs of groups; those with two anchors; those in the right order;
  the score.\<close>

definition ordered_pairs :: "(string \<times> string) list" where
  "ordered_pairs =
     [(''sal'', ''basic''), (''sal'', ''add''), (''sal'', ''end''),
      (''basic'', ''add''), (''basic'', ''end''), (''add'', ''end'')]"

definition evaluable_pairs :: "string \<Rightarrow> (string \<times> string) list" where
  "evaluable_pairs t =
     filter (\<lambda>(a, b). anchor a t \<noteq> None \<and> anchor b t \<noteq> None) ordered_pairs"

definition correct_pairs_of :: "string \<Rightarrow> (string \<times> string) list" where
  "correct_pairs_of t =
     filter (\<lambda>(a, b). the (anchor a t) < the (anchor b t)) (evaluable_pairs t)"

definition flow_spec :: "string \<Rightarrow> real" where
  "flow_spec t =
     (if evaluable_pairs t = [] then (if anchor ''basic'' t \<noteq> None then 3 else 0)
      else real (length (correct_pairs_of t)) / real (length (evaluable_pairs t)) * 5)"

text \<open>Whether \<open>keyword_presence_score\<close> finds a concept in a text: the test of its two
  list comprehensions.\<close>

definition concept_found :: "string \<Rightarrow> string \<Rightarrow> bool" where
  "concept_found text k = find_any_pattern (lower_and_clean text) (keyword_patterns k)"

section \<open>Texts used as examples\<close>

text \<open>Twenty-four words, to be spoken in 13 seconds.\<close>

definition paced_text :: string where
  "paced_text = ''my name is ravi and i am a student of class eight and i love to play cricket with my good friends every day''"

text \<open>Fifty-four words, to be spoken in 23 seconds.\<close>

definition brisk_text :: string where
  "brisk_text = ''good morning everyone my name is anita and i am ten years old i study in class five at green valley school i live with my parents and my little brother i like to paint and to read story books my dream is to become a doctor thank you all for listening to me''"

text \<open>The sample of the \<open>__main__\<close> block in lower case.\<close>

definition sample_lower :: string where
  "sample_lower = ''hello everyone, i am excited to introduce myself. my name is rahul and i study in class 10 at delhi public school. i am 15 years old and live with my family which includes my parents and younger sister. my hobby is playing chess and i have a strong interest in coding. a fun fact about me is that i can solve a cube in under a minute. my goal is to become a software engineer. thank you for listening.''"

section \<open>Functions for evaluating the matcher on a given text\<close>

text \<open>
  The decisions that \<open>ends\<close> and \<open>scan\<close> take with \<open>if\<close> and \<open>case\<close>, as functions
  of the value decided on. The lemmas of the next section rewrite the matcher into them,
  so that a text is matched by rewriting from left to right.
\<close>

fun bind_ends :: "regex \<Rightarrow> cursor list \<Rightarrow> cursor list" where
  "bind_ends b [] = []"
| "bind_ends b ((n, w, s) # cs) = ends b n w s @ bind_ends b cs"

fun scan_step :: "cursor list \<Rightarrow> (bool \<Rightarrow> string \<Rightarrow> cursor list) \<Rightarrow> char \<Rightarrow> string \<Rightarrow> nat \<Rightarrow> (nat \<times> string) list" where
  "scan_step [] m c s i = scan m (is_word c) s (Suc i) 0"
| "scan_step ((n, w', s') # es) m c s i = (i, take n (c # s)) # scan m (is_word c) s (Suc i) (n - 1)"

fun lit_step :: "bool \<Rightarrow> string \<Rightarrow> nat \<Rightarrow> char \<Rightarrow> string \<Rightarrow> cursor list" where
  "lit_step True xs n c s = lit_at xs (Suc n) (is_word c) s"
| "lit_step False xs n c s = []"

fun star_step :: "bool \<Rightarrow> cclass \<Rightarrow> nat \<Rightarrow> bool \<Rightarrow> char \<Rightarrow> string \<Rightarrow> cursor list" where
  "star_step True k n w c s = star_at k (Suc n) (is_word c) s @ [(n, w, c # s)]"
| "star_step False k n w c s = [(n, w, c # s)]"

fun cls_step :: "bool \<Rightarrow> nat \<Rightarrow> char \<Rightarrow> string \<Rightarrow> cursor list" where
  "cls_step True n c s = [(Suc n, is_word c, s)]"
| "cls_step False n c s = []"

fun plus_step :: "bool \<Rightarrow> cclass \<Rightarrow> nat \<Rightarrow> char \<Rightarrow> string \<Rightarrow> cursor list" where
  "plus_step True k n c s = star_at k (Suc n) (is_word c) s"
| "plus_step False k n c s = []"

fun bound_step :: "bool \<Rightarrow> nat \<Rightarrow> bool \<Rightarrow> string \<Rightarrow> cursor list" where
  "bound_step True n w s = [(n, w, s)]"
| "bound_step False n w s = []"

section \<open>Evaluation lemmas\<close>

text \<open>The character classes, bit by bit.\<close>

lemma is_digit_bits:
  "is_digit (Char b0 b1 b2 b3 b4 b5 b6 b7) =
     (\<not> b7 \<and> \<not> b6 \<and> b5 \<and> b4 \<and> (\<not> b3 \<or> (\<not> b2 \<and> \<not> b1)))"
  by (cases b0; cases b1; cases b2; cases b3; cases b4; cases b5; cases b6; cases b7;
      simp add: is_digit_def code_of_def)

lemma is_upper_bits:
  "is_upper (Char b0 b1 b2 b3 b4 b5 b6 b7) =
     (\<not> b7 \<and> b6 \<and> \<not> b5 \<and> (b0 \<or> b1 \<or> b2 \<or> b3 \<or> b4) \<and>
      (\<not> b4 \<or> \<not> b3 \<or> (\<not> b2 \<and> (\<not> b1 \<or> \<not> b0))))"
  by (cases b0; cases b1; cases b2; cases b3; cases b4; cases b5; cases b6; cases b7;
      simp add: is_upper_def code_of_def)

lemma is_lower_bits:
  "is_lower (Char b0 b1 b2 b3 b4 b5 b6 b7) =
     (\<not> b7 \<and> b6 \<and> b5 \<and> (b0 \<or> b1 \<or> b2 \<or> b3 \<or> b4) \<and>
      (\<not> b4 \<or> \<not> b3 \<or> (\<not> b2 \<and> (\<not> b1 \<or> \<not> b0))))"
  by (cases b0; cases b1; cases b2; cases b3; cases b4; cases b5; cases b6; cases b7;
      simp add: is_lower_def code_of_def)

lemma is_word_bits:
  "is_word (Char b0 b1 b2 b3 b4 b5 b6 b7) =
     (\<not> b7 \<and>
      (if b6 then (b0 \<and> b1 \<and> b2 \<and> b3 \<and> b4 \<and> \<not> b5) \<or>
                 ((b0 \<or> b1 \<or> b2 \<or> b3 \<or> b4) \<and>
                  (\<not> b4 \<or> \<not> b3 \<or> (\<not> b2 \<and> (\<not> b1 \<or> \<not> b0))))
       else b5 \<and> b4 \<and> (\<not> b3 \<or> (\<not> b2 \<and> \<not> b1))))"
  by (cases b0; cases b1; cases b2; cases b3; cases b4; cases b5; cases b6; cases b7;
      simp add: is_word_def is_lower_def is_upper_def is_digit_def code_of_def)

lemma is_space_bits:
  "is_space (Char b0 b1 b2 b3 b4 b5 b6 b7) =
     (\<not> b7 \<and> \<not> b6 \<and>
      (if b5 then \<not> b0 \<and> \<not> b1 \<and> \<not> b2 \<and> \<not> b3 \<and> \<not> b4
       else if b4 then b3 \<and> b2
       else b3 \<and> ((\<not> b2 \<and> (b0 \<or> b1)) \<or> (b2 \<and> \<not> b1))))"
  by (cases b0; cases b1; cases b2; cases b3; cases b4; cases b5; cases b6; cases b7;
      simp add: is_space_def code_of_def)

lemma to_lower_bits:
  "to_lower (Char b0 b1 b2 b3 b4 b5 b6 b7) =
     (if is_upper (Char b0 b1 b2 b3 b4 b5 b6 b7) then Char b0 b1 b2 b3 b4 True b6 b7
      else Char b0 b1 b2 b3 b4 b5 b6 b7)"
  by (simp add: to_lower_def)

text \<open>The matcher, one decision at a time.\<close>

lemma ends_Cat_bind: "ends (Cat a b) n w s = bind_ends b (ends a n w s)"
proof -
  have "concat (map (\<lambda>(n', w', s'). ends b n' w' s') cs) = bind_ends b cs" for cs
    by (induction cs) auto
  then show ?thesis by simp
qed

lemma scan_try: "scan m w (c # s) i 0 = scan_step (m w (c # s)) m c s i"
  by (cases "m w (c # s)") auto

lemma lit_at_step: "lit_at (x # xs) n w (c # s) = lit_step (x = c) xs n c s"
  by simp

lemma star_at_step: "star_at k n w (c # s) = star_step (in_class k c) k n w c s"
  by simp

lemma cls_at_step: "ends (Cls k) n w (c # s) = cls_step (in_class k c) n c s"
  by simp

lemma plus_at_step: "ends (Plus k) n w (c # s) = plus_step (in_class k c) k n c s"
  by simp

lemma bound_at_step:
  "ends Bound n w (c # s) = bound_step (w \<noteq> is_word c) n w (c # s)"
  "ends Bound n w [] = bound_step w n w []"
  by simp_all

lemmas char_eval = is_digit_bits is_upper_bits is_lower_bits is_word_bits is_space_bits
  to_lower_bits char.inject simp_thms if_True if_False

lemmas list_eval = append.simps list.map filter.simps concat.simps list.case prod.case
  take_Suc_Cons take_0 take.simps(1) fold_simps list.size(3,4) list.distinct fst_conv snd_conv
  list.inject diff_Suc_1 diff_0_eq_0 diff_Suc_Suc minus_nat.diff_0 drop_0 drop_Suc_Cons drop.simps(1)
  list.set empty_iff insert_iff

lemmas matcher_eval = lit_at.simps(1,2) lit_at_step lit_step.simps star_at.simps(1) star_at_step
  star_step.simps in_class.simps ends.simps(1,2,5,7,9) cls_at_step cls_step.simps plus_at_step
  plus_step.simps bound_at_step bound_step.simps ends_Cat_bind bind_ends.simps
  scan.simps(1,2,3) scan_try scan_step.simps search_at.simps re_search_def re_finditer_def
  re_findall_def seq.simps bounded_def word_tokens_def match_starts.simps

lemmas re_eval = matcher_eval lower_def

lemmas eval_congs = if_weak_cong list.case_cong_weak

lemmas arith_eval = add_Suc add_Suc_right plus_nat.add_0 add_0_right

text \<open>The pattern tables.\<close>

lemma keyword_patterns_eval:
  "keyword_patterns ''name'' = [Lit ''name is'', Lit ''my name is'', Lit ''i am'', Lit ''myself'',
                 bounded (Lit ''this is''), bounded (Lit ''my name'')]"
  "keyword_patterns ''age'' = [Lit ''age'', Lit ''years old'',
                bounded (seq [Plus Digit, Star Space, Lit ''years'', Star Space, Lit ''old'']),
                bounded (seq [Lit ''i am '', Plus Digit]),
                bounded (seq [Lit ''I'', Lit [CHR 0x27], Lit ''m '', Plus Digit])]"
  "keyword_patterns ''school'' = [Lit ''school'', Lit ''student of'', Lit ''study in'', Lit ''studying in'',
                   Lit ''class of'']"
  "keyword_patterns ''class'' = [Lit ''class'', Lit ''grade'', Lit ''standard'', bounded (Lit ''8th''),
                  bounded (Lit ''9th''), bounded (Lit ''10th'')]"
  "keyword_patterns ''family'' = [Lit ''family'', Lit ''parents'', Lit ''mother'', Lit ''father'',
                   Lit ''brother'', Lit ''sister'',
                   bounded (seq [Lit ''we '', Alt (Lit ''are'') (Lit (CHR 0x27 # ''re'')),
                                 Lit '' '', Plus Digit, Lit '' people''])]"
  "keyword_patterns ''hobby'' = [Lit ''hobby'', Lit ''hobbies'', Lit ''like to'', Lit ''love to'', Lit ''enjoy'',
                  Lit ''playing'', Lit ''play'']"
  "keyword_patterns ''interest'' = [Lit ''interest'', Lit ''passionate'', Lit ''fan of'', Lit ''interested in'']"
  "keyword_patterns ''goal'' = [Lit ''goal'', Lit ''ambition'', Lit ''dream'', Lit ''want to be'',
                 Lit ''i want to'']"
  "keyword_patterns ''fun_fact'' = [Lit ''fun fact'', Lit ''once'', Lit ''secret'',
                     Lit (''don'' @ CHR 0x27 # ''t know''), Lit ''dont know'',
                     Lit ''surprising'']"
  by (simp_all add: keyword_patterns_def KEYWORD_MAP_def)

lemma group_patterns_eval:
  "group_patterns ''sal'' =
     [Lit ''good morning'', Lit ''good afternoon'', Lit ''good evening'', Lit ''good day'',
      Lit ''hello everyone'', bounded (Lit ''hi''), bounded (Lit ''hello''),
      Lit ''i am excited to introduce'', Lit ''feeling great'',
      Lit (''i'' @ CHR 0x27 # ''m excited''), Lit ''i am excited'']"
  "group_patterns ''basic'' =
     keyword_patterns ''name'' @ keyword_patterns ''age'' @
     keyword_patterns ''class'' @ keyword_patterns ''school''"
  "group_patterns ''add'' =
     keyword_patterns ''hobby'' @ keyword_patterns ''interest'' @
     keyword_patterns ''goal'' @ keyword_patterns ''fun_fact''"
  "group_patterns ''end'' =
     [Lit ''thank you'', Lit ''thanks'', Lit ''thankyou'', Lit (''that'' @ CHR 0x27 # ''s all'')]"
  by (simp_all add: group_patterns_def groups_map_def SALUTATIONS_good_def
        SALUTATIONS_normal_def SALUTATIONS_excellent_def)

lemmas score_eval = concept_found_def find_any_pattern_def lower_and_clean_def any_search.simps
  keyword_patterns_eval must_def optional_def Let_def

section \<open>No scanned pattern matches the empty string\<close>

lemma lit_at_count: "(n', w', s') \<in> set (lit_at l n w s) \<Longrightarrow> n' = n + length l"
  by (induction l n w s rule: lit_at.induct) (auto split: if_splits)

lemma star_at_count: "(n', w', s') \<in> set (star_at k n w s) \<Longrightarrow> n \<le> n'"
  by (induction s arbitrary: n w) (fastforce split: if_splits)+

lemma ends_count: "(n', w', s') \<in> set (ends r n w s) \<Longrightarrow> n \<le> n'"
proof (induction r arbitrary: n w s n' w' s')
  case (Lit l)
  then show ?case using lit_at_count [of n' w' s' l n w s] by simp
next
  case (Cls k)
  then show ?case by (cases s) (auto split: if_splits)
next
  case Bound
  then show ?case by (auto split: if_splits)
next
  case (Plus k)
  then show ?case by (cases s) (auto split: if_splits dest: star_at_count)
next
  case (Star k)
  then show ?case by (auto dest: star_at_count)
next
  case (Cat r1 r2)
  from Cat.prems obtain m v t where "(m, v, t) \<in> set (ends r1 n w s)"
    and "(n', w', s') \<in> set (ends r2 m v t)"
    by auto
  with Cat.IH show ?case by (meson le_trans)
next
  case (Alt r1 r2)
  then show ?case by auto
qed

lemma ends_progress: "consumes r \<Longrightarrow> (n', w', s') \<in> set (ends r n w s) \<Longrightarrow> n < n'"
proof (induction r arbitrary: n w s n' w' s')
  case (Lit l)
  then show ?case using lit_at_count [of n' w' s' l n w s] by simp
next
  case (Cls k)
  then show ?case by (cases s) (auto split: if_splits)
next
  case Bound
  then show ?case by simp
next
  case (Plus k)
  then show ?case by (cases s) (auto split: if_splits dest: star_at_count)
next
  case (Star k)
  then show ?case by simp
next
  case (Cat r1 r2)
  from Cat.prems(2) obtain m v t where mid: "(m, v, t) \<in> set (ends r1 n w s)"
    and fin: "(n', w', s') \<in> set (ends r2 m v t)"
    by auto
  from Cat.prems(1) consider "consumes r1" | "consumes r2" by auto
  then show ?case
  proof cases
    case 1
    with Cat.IH(1) mid have "n < m" by blast
    with ends_count [OF fin] show ?thesis by simp
  next
    case 2
    with Cat.IH(2) fin have "m < n'" by blast
    with ends_count [OF mid] show ?thesis by simp
  qed
next
  case (Alt r1 r2)
  then show ?case by auto
qed

lemma scanned_patterns_consume:
  "list_all consumes (concat (map snd groups_map))"
  "list_all (\<lambda>filler. consumes (bounded (Lit filler))) FILLER_WORDS"
  "consumes (Plus Word)" "consumes (Plus (OneOf ''.!?''))"
  "consumes (seq [Plus Space, Lit ''i'', Plus Space])"
  by (simp_all add: groups_map_def keyword_patterns_def KEYWORD_MAP_def SALUTATIONS_good_def
        SALUTATIONS_normal_def SALUTATIONS_excellent_def FILLER_WORDS_def bounded_def)

lemma repeated_word_progress: "(n', w', s') \<in> set (repeated_word_ends w s) \<Longrightarrow> 0 < n'"
proof -
  assume a: "(n', w', s') \<in> set (repeated_word_ends w s)"
  then obtain m v t where mid: "(m, v, t) \<in> set (ends (Plus Word) 0 w s)"
    and fin: "(n', w', s') \<in> set (ends (seq [Plus Space, Lit (take m s), Bound]) m v t)"
    unfolding repeated_word_ends_def
    by (auto split: if_splits simp del: ends.simps seq.simps)
  have "consumes (seq [Plus Space, Lit (take m s), Bound])" by simp
  from ends_progress [OF this fin] show ?thesis by simp
qed

section \<open>Every score lies between zero and its weight\<close>

lemma salutation_range: "fst (detect_salutation_level t) \<in> {0, 2, 4, 5}"
  by (simp add: detect_salutation_level_def Let_def)

lemma length_filter_must: "length (filter P must) \<le> 6"
  using length_filter_le [of P must] by (simp add: must_def)

lemma length_filter_optional: "length (filter P optional) \<le> 3"
  using length_filter_le [of P optional] by (simp add: optional_def)

lemma keyword_raw:
  "fst (keyword_presence_score t 30) =
     real (length (filter (\<lambda>k. find_any_pattern (lower t) (keyword_patterns k)) must)) / 6 * 20 +
     real (length (filter (\<lambda>k. find_any_pattern (lower t) (keyword_patterns k)) optional)) / 3 * 10"
proof -
  let ?m = "length (filter (\<lambda>k. find_any_pattern (lower t) (keyword_patterns k)) must)"
  let ?o = "length (filter (\<lambda>k. find_any_pattern (lower t) (keyword_patterns k)) optional)"
  have "real ?m \<le> 6" "real ?o \<le> 3"
    using length_filter_must [of "\<lambda>k. find_any_pattern (lower t) (keyword_patterns k)"]
      length_filter_optional [of "\<lambda>k. find_any_pattern (lower t) (keyword_patterns k)"]
    by simp_all
  then have "real ?m / 6 * 20 + real ?o / 3 * 10 \<le> 30" by simp
  then show ?thesis
    by (simp add: keyword_presence_score_def Let_def lower_and_clean_def must_def optional_def)
qed

lemma keyword_range: "0 \<le> fst (keyword_presence_score t 30) \<and> fst (keyword_presence_score t 30) \<le> 30"
proof -
  let ?m = "length (filter (\<lambda>k. find_any_pattern (lower t) (keyword_patterns k)) must)"
  let ?o = "length (filter (\<lambda>k. find_any_pattern (lower t) (keyword_patterns k)) optional)"
  have "real ?m \<le> 6" "real ?o \<le> 3"
    using length_filter_must [of "\<lambda>k. find_any_pattern (lower t) (keyword_patterns k)"]
      length_filter_optional [of "\<lambda>k. find_any_pattern (lower t) (keyword_patterns k)"]
    by simp_all
  then show ?thesis unfolding keyword_raw by simp
qed

lemma count_pair_le: "fst acc \<le> snd acc \<Longrightarrow> fst (count_pair ps ij acc) \<le> snd (count_pair ps ij acc)"
  by (simp add: count_pair_def split: option.splits)

lemma fold_count_pair_le:
  "fst acc \<le> snd acc \<Longrightarrow> fst (fold (count_pair ps) xs acc) \<le> snd (fold (count_pair ps) xs acc)"
  by (induction xs arbitrary: acc) (simp_all add: count_pair_le)

lemma flow_range: "0 \<le> fst (flow_score t 5) \<and> fst (flow_score t 5) \<le> 5"
proof -
  obtain c n where cn: "fold (count_pair (group_positions (lower t))) loop_pairs (0, 0) = (c, n)"
    by (cases "fold (count_pair (group_positions (lower t))) loop_pairs (0, 0)")
  have "c \<le> n"
    using fold_count_pair_le [of "(0, 0)" "group_positions (lower t)" loop_pairs] cn by simp
  show ?thesis
  proof (cases "n = 0")
    case True
    then show ?thesis by (simp add: flow_score_def Let_def lower_and_clean_def cn)
  next
    case False
    with \<open>c \<le> n\<close> have "real c * 5 / real n \<le> 5"
      by (simp add: pos_divide_le_eq)
    with False show ?thesis by (simp add: flow_score_def Let_def lower_and_clean_def cn)
  qed
qed

lemma speech_range: "fst (speech_rate_score t d 10) \<in> {2, 6, 10}"
  by (simp add: speech_rate_score_def Let_def)

lemma ratio_range:
  fixes x :: real
  shows "0 \<le> x \<Longrightarrow> 0 \<le> (1 - min x 1) * 10 \<and> (1 - min x 1) * 10 \<le> 10"
  by (simp add: min_def)

lemma grammar_range: "0 \<le> fst (grammar_score t 10) \<and> fst (grammar_score t 10) \<le> 10"
proof -
  obtain x where x: "fst (grammar_score t 10) = (1 - min x 1) * 10" "0 \<le> x"
    by (simp add: grammar_score_def Let_def)
  then show ?thesis using ratio_range [of x] by simp
qed

lemma vocab_range: "fst (vocab_ttr_score t 10) \<in> {0, 2, 4, 6, 8, 10}"
  by (simp add: vocab_ttr_score_def Let_def)

lemma filler_range: "fst (filler_word_score t 15) \<in> {0, 3, 6, 9, 12, 15}"
  by (simp add: filler_word_score_def Let_def split: prod.splits)

lemma sentiment_range: "fst (sentiment_score v t 15) \<in> {3, 6, 9, 12, 15}"
  by (simp add: sentiment_score_def Let_def split: prod.splits option.splits)


text \<open>What the aggregator returns for a non-empty \<open>str\<close>.\<close>

lemma evaluate_transcript_str:
  "s \<noteq> [] \<Longrightarrow>
   evaluate_transcript vader (PyStr s) rubric_df d =
     (fst (detect_salutation_level s) + (fst (keyword_presence_score s 30) +
        (fst (flow_score s 5) + (fst (speech_rate_score s d 10) + (fst (grammar_score s 10) +
        (fst (vocab_ttr_score s 10) + (fst (filler_word_score s 15) +
         fst (sentiment_score vader s 15))))))),
      [mk_criterion ''Salutation Level'' (detect_salutation_level s) 5,
       mk_criterion ''Keyword Presence'' (keyword_presence_score s 30) 30,
       mk_criterion ''Flow (Order)'' (flow_score s 5) 5,
       mk_criterion ''Speech Rate (WPM)'' (speech_rate_score s d 10) 10,
       mk_criterion ''Grammar Errors'' (grammar_score s 10) 10,
       mk_criterion ''Vocabulary (TTR)'' (vocab_ttr_score s 10) 10,
       mk_criterion ''Filler Word Rate'' (filler_word_score s 15) 15,
       mk_criterion ''Sentiment'' (sentiment_score vader s 15) 15])"
  by (simp add: evaluate_transcript_def Let_def mk_criterion_def)

lemma evaluate_transcript_other:
  "\<not> truthy t \<or> \<not> is_str t \<Longrightarrow> evaluate_transcript vader t rubric_df d = (0, [])"
  by (simp add: evaluate_transcript_def)

lemma str_cases: "(\<not> truthy t \<or> \<not> is_str t) \<or> (\<exists>s. t = PyStr s \<and> s \<noteq> [])"
  by (cases t) simp_all

lemma scores_of_str:
  fixes a b c e f g h i :: real
  assumes "a \<in> {0, 2, 4, 5}" "0 \<le> b \<and> b \<le> 30" "0 \<le> c \<and> c \<le> 5" "e \<in> {2, 6, 10}"
    "0 \<le> f \<and> f \<le> 10" "g \<in> {0, 2, 4, 6, 8, 10}" "h \<in> {0, 3, 6, 9, 12, 15}"
    "i \<in> {3, 6, 9, 12, 15}"
  shows "5 \<le> a + (b + (c + (e + (f + (g + (h + i))))))"
    and "a + (b + (c + (e + (f + (g + (h + i)))))) \<le> 100"
proof -
  have "0 \<le> a \<and> a \<le> 5" using assms(1) by auto
  moreover have "2 \<le> e \<and> e \<le> 10" using assms(4) by auto
  moreover have "0 \<le> g \<and> g \<le> 10" using assms(6) by auto
  moreover have "0 \<le> h \<and> h \<le> 15" using assms(7) by auto
  moreover have "3 \<le> i \<and> i \<le> 15" using assms(8) by auto
  ultimately show "5 \<le> a + (b + (c + (e + (f + (g + (h + i))))))"
    and "a + (b + (c + (e + (f + (g + (h + i)))))) \<le> 100"
    using assms(2,3,5) by linarith+
qed

section \<open>Calls that raise\<close>

lemma smallest_float_pos: "0 < smallest_float"
  by (simp add: smallest_float_def)

lemma smallest_float_small: "smallest_float \<le> 1 / 128"
proof -
  have "(2 :: real) ^ 7 \<le> 2 ^ 1074" by (rule power_increasing) simp_all
  moreover have "(2 :: real) ^ 7 = 128" by simp
  ultimately have "(128 :: real) \<le> 2 ^ 1074" by (simp only:)
  then have "inverse ((2 :: real) ^ 1074) \<le> inverse 128"
    by (rule le_imp_inverse_le) simp
  then show ?thesis by (simp only: smallest_float_def inverse_eq_divide)
qed


lemma speech_call_returns:
  "\<not> (0 < d \<and> d \<le> 30 * smallest_float) \<Longrightarrow>
   call_speech_rate_score t d w = Inr (speech_rate_score t d w)"
  using smallest_float_pos smallest_float_small
  by (auto simp add: call_speech_rate_score_def rounds_to_zero_def Let_def)



lemma evaluate_call_other:
  "\<not> truthy t \<or> \<not> is_str t \<Longrightarrow>
   call_evaluate_transcript vader (PyValue t) rubric_df d = Inr (0, [])"
  by auto

lemma ordinary_durations:
  "1 \<le> d \<Longrightarrow> \<not> (0 < d \<and> d \<le> 30 * smallest_float)"
  using smallest_float_small by auto

section \<open>The aggregator\<close>

text \<open>
  Claim C1. For every transcript (a string or any other value), every rubric, every
  duration and either sentiment backend, the total that \<open>evaluate_transcript\<close> returns is
  the sum of the scores of the criterion records it returns, and it lies between 0 and 100.
\<close>

theorem total_is_sum_of_scores:
  "fst (evaluate_transcript vader t rubric_df d) =
     sum_list (map score (snd (evaluate_transcript vader t rubric_df d))) \<and>
   0 \<le> fst (evaluate_transcript vader t rubric_df d) \<and>
   fst (evaluate_transcript vader t rubric_df d) \<le> 100"
proof -
  consider "\<not> truthy t \<or> \<not> is_str t" | s where "t = PyStr s" "s \<noteq> []"
    using str_cases [of t] by blast
  then show ?thesis
  proof cases
    case 1
    then show ?thesis by (simp add: evaluate_transcript_other)
  next
    case 2
    have "5 \<le> fst (evaluate_transcript vader t rubric_df d)"
      and "fst (evaluate_transcript vader t rubric_df d) \<le> 100"
      unfolding 2(1) evaluate_transcript_str [OF 2(2)] fst_conv
      by (rule scores_of_str [OF salutation_range keyword_range flow_range speech_range
            grammar_range vocab_range filler_range sentiment_range])+
    then show ?thesis
      by (simp add: 2(1) evaluate_transcript_str [OF 2(2)] mk_criterion_def)
  qed
qed

theorem total_is_sum_of_scores_witness:
  "fst (evaluate_transcript None (PyStr ''hi'') () 52) =
     sum_list (map score (snd (evaluate_transcript None (PyStr ''hi'') () 52))) \<and>
   0 \<le> fst (evaluate_transcript None (PyStr ''hi'') () 52) \<and>
   fst (evaluate_transcript None (PyStr ''hi'') () 52) \<le> 100 \<and>
   fst (evaluate_transcript None PyNone () 52) =
     sum_list (map score (snd (evaluate_transcript None PyNone () 52)))"
  using total_is_sum_of_scores [of None "PyStr ''hi''" "()" 52]
    total_is_sum_of_scores [of None PyNone "()" 52]
  by simp




text \<open>
  Claim C3. For a transcript that is the empty string, or a value that is not a string and
  whose truth test returns (\<open>None\<close>, a boolean, a number, a list), a call of
  \<open>evaluate_transcript\<close> returns the total 0.0 and the empty criterion list, whatever the
  backend, the rubric and the duration are: no record of any analyzer is in it. For a
  \<open>DataFrame\<close>, which is not a string either, the call raises \<open>ValueError\<close>: the guard
  tests \<open>not transcript\<close> before \<open>isinstance(transcript, str)\<close>, which would have
  turned the value away. The claim promises a normal return for every value that is not a
  string.
\<close>

theorem invalid_transcript_returns_or_raises:
  "call_evaluate_transcript vader PyDataFrame rubric_df d = Inl ValueError \<and>
   (t = PyStr [] \<or> \<not> is_str t \<longrightarrow>
      call_evaluate_transcript vader (PyValue t) rubric_df d = Inr (0, []))"
  by auto

theorem invalid_transcript_returns_or_raises_witness:
  "call_evaluate_transcript None PyDataFrame () 52 = Inl ValueError \<and>
   call_evaluate_transcript None (PyValue (PyStr [])) () 52 = Inr (0, []) \<and>
   call_evaluate_transcript None (PyValue PyNone) () 52 = Inr (0, []) \<and>
   call_evaluate_transcript (Some (\<lambda>x. 1)) (PyValue (PyInt 7)) () 30 = Inr (0, []) \<and>
   call_evaluate_transcript None (PyValue (PyList [PyStr ''hello''])) () 30 = Inr (0, [])"
  using invalid_transcript_returns_or_raises [of None "()" 52 "PyStr []"]
    invalid_transcript_returns_or_raises [of None "()" 52 PyNone]
    invalid_transcript_returns_or_raises [of "Some (\<lambda>x. 1)" "()" 30 "PyInt 7"]
    invalid_transcript_returns_or_raises [of None "()" 30 "PyList [PyStr ''hello'']"]
  by simp

text \<open>
  Claim C9. For every transcript and duration, \<open>evaluate_transcript\<close> returns the same
  result for any two rubric arguments, of whatever types: the total, and every name,
  score, weight and detail of the criterion records.
\<close>

theorem rubric_has_no_influence:
  "evaluate_transcript vader t (rubric1 :: 'a) d = evaluate_transcript vader t (rubric2 :: 'b) d"
  by (simp add: evaluate_transcript_def)

theorem rubric_has_no_influence_witness:
  "evaluate_transcript None (PyStr ''hi'') () 52 =
     evaluate_transcript None (PyStr ''hi'') [(''Salutation Level'', 50 :: nat)] 52 \<and>
   evaluate_transcript None PyNone () 52 = evaluate_transcript None PyNone (7 :: int) 52"
  using rubric_has_no_influence [of None "PyStr ''hi''" "()" 52 "[(''Salutation Level'', 50 :: nat)]"]
    rubric_has_no_influence [of None PyNone "()" 52 "7 :: int"]
  by simp





section \<open>Speech rate\<close>

lemma four_word_count: "length (word_tokens ''one two three four'') = 4"
  by (simp only: matcher_eval char_eval list_eval cong: eval_congs; simp)

lemma paced_word_count: "length (word_tokens paced_text) = 24"
  by (simp only: paced_text_def matcher_eval char_eval list_eval cong: eval_congs; simp)

lemma brisk_word_count: "length (word_tokens brisk_text) = 54"
  by (simp only: brisk_text_def matcher_eval char_eval list_eval cong: eval_congs; simp)

lemma speech_score_at:
  "speech_rate_score ''one two three four'' 10 10 = (2, SpeechDetails 24 4 10)"
  "speech_rate_score ''one two three four'' 0 10 = (2, SpeechDetails (46 / 10) 4 52)"
  "speech_rate_score paced_text 13 10 = (6, SpeechDetails (1108 / 10) 24 13)"
  "speech_rate_score brisk_text 23 10 = (2, SpeechDetails (1409 / 10) 54 23)"
  by (simp_all add: speech_rate_score_def Let_def four_word_count paced_word_count
        brisk_word_count py_round_def round_half_even_def)

text \<open>
  Claim C4. The speech-rate analyzer at four inputs; the details hold the rate rounded to
  one decimal, the word count and the duration used. Four words in 10 seconds are 24 words
  per minute and score 2; with the duration 0, 52 seconds take its place. Twenty-four words
  in 13 seconds are about 110.8 words per minute, between the bands 81 to 110 and 111 to
  140: the test \<open>81 <= wpm < 111\<close> gives them the 6 of the band below. Fifty-four words in
  23 seconds are about 140.9 words per minute, between the bands 111 to 140 and 141 to 160:
  the tests \<open>111 <= wpm <= 140\<close> and \<open>141 <= wpm <= 160\<close> both fail and the score is 2,
  which the comment of the source keeps for rates below 81 or above 160.
\<close>

theorem speech_rate_between_bands:
  "call_speech_rate_score ''one two three four'' 10 10 = Inr (2, SpeechDetails 24 4 10) \<and>
   call_speech_rate_score ''one two three four'' 0 10 = Inr (2, SpeechDetails (46 / 10) 4 52) \<and>
   call_speech_rate_score paced_text 13 10 = Inr (6, SpeechDetails (1108 / 10) 24 13) \<and>
   call_speech_rate_score brisk_text 23 10 = Inr (2, SpeechDetails (1409 / 10) 54 23)"
proof -
  have "\<not> (0 < (0 :: real) \<and> 0 \<le> 30 * smallest_float)" by simp
  moreover have "\<not> (0 < (10 :: real) \<and> 10 \<le> 30 * smallest_float)"
    by (rule ordinary_durations) simp
  moreover have "\<not> (0 < (13 :: real) \<and> 13 \<le> 30 * smallest_float)"
    by (rule ordinary_durations) simp
  moreover have "\<not> (0 < (23 :: real) \<and> 23 \<le> 30 * smallest_float)"
    by (rule ordinary_durations) simp
  ultimately show ?thesis
    by (simp only: speech_call_returns speech_score_at simp_thms)
qed

section \<open>Filler words\<close>

lemma fold_count_filler_fst:
  "fst (fold (count_filler text) fs acc) =
     fst acc + sum_list (map (\<lambda>filler. length (re_findall (bounded (Lit filler)) (lower text))) fs)"
  by (induction fs arbitrary: acc) (simp_all add: count_filler_def Let_def)

lemma filler_score_words:
  assumes "word_tokens (lower text) \<noteq> []"
  shows "fst (filler_word_score text 15) =
     filler_band (real (filler_occurrences text) / real (length (word_tokens (lower text))) * 100)"
proof -
  obtain c f where cf: "fold (count_filler text) FILLER_WORDS (0, []) = (c, f)"
    by (cases "fold (count_filler text) FILLER_WORDS (0, [])")
  have "c = filler_occurrences text"
    using fold_count_filler_fst [of "text" FILLER_WORDS "(0, [])"]
    by (simp add: cf filler_occurrences_def)
  then show ?thesis
    using assms by (simp add: filler_word_score_def Let_def filler_band_def cf)
qed

lemma filler_score_no_words:
  "word_tokens (lower text) = [] \<Longrightarrow> filler_word_score text 15 = (0, NoDetails)"
  by (simp add: filler_word_score_def)

lemma fold_count_filler_none:
  "list_all (\<lambda>filler. re_findall (bounded (Lit filler)) (lower text) = []) fs \<Longrightarrow>
   fold (count_filler text) fs acc = acc"
  by (induction fs arbitrary: acc) (simp_all add: count_filler_def)

text \<open>A literal matches where the text goes on with it.\<close>

lemma lit_at_prefix:
  "lit_at l n w (l @ r) = [(n + length l, if l = [] then w else is_word (last l), r)]"
  by (induction l arbitrary: n w) simp_all

lemma lit_at_no_prefix: "take (length l) s \<noteq> l \<Longrightarrow> lit_at l n w s = []"
  by (induction l n w s rule: lit_at.induct) auto

text \<open>A match of \<open>\bf\b\<close> at a cursor: the text goes on with \<open>f\<close>, and there is a word
  boundary before it and after it.\<close>

lemma bounded_literal_match:
  "ends (bounded (Lit f)) n w s \<noteq> [] \<longleftrightarrow>
     take (length f) s = f \<and> w \<noteq> word_ahead s \<and>
     (if f = [] then w else is_word (last f)) \<noteq> word_ahead (drop (length f) s)"
proof (cases "take (length f) s = f")
  case True
  then have "s = f @ drop (length f) s" by (metis append_take_drop_id)
  then obtain r where s: "s = f @ r" and r: "r = drop (length f) s" by blast
  show ?thesis
    unfolding r [symmetric] unfolding s by (simp add: bounded_def lit_at_prefix)
next
  case False
  then show ?thesis by (simp add: bounded_def lit_at_no_prefix)
qed

lemma software_tokens:
  "re_findall (bounded (Lit ''so'')) (lower ''the software team built the software'') = []"
  by (simp only: lower_def matcher_eval char_eval list_eval cong: eval_congs)

lemma software_fillers:
  "list_all (\<lambda>filler. re_findall (bounded (Lit filler))
      (lower ''the software team built the software'') = []) FILLER_WORDS"
  by (simp only: FILLER_WORDS_def list.pred_inject lower_def matcher_eval char_eval list_eval
        cong: eval_congs)

lemma so_so_so_words: "word_tokens (lower ''so so so'') = [''so'', ''so'', ''so'']"
  by (simp only: lower_def matcher_eval char_eval list_eval cong: eval_congs)

lemma so_so_so_fold:
  "fold (count_filler ''so so so'') FILLER_WORDS (0, []) = (3, [''so (3)''])"
proof -
  have "map (\<lambda>filler. re_findall (bounded (Lit filler)) (lower ''so so so'')) FILLER_WORDS =
          [[], [], [], [], [''so'', ''so'', ''so''], [], [], [], [], [], [], [], [], [], [], [], []]"
    by (simp only: FILLER_WORDS_def lower_def matcher_eval char_eval list_eval cong: eval_congs)
  then show ?thesis
    by (simp add: FILLER_WORDS_def count_filler_def)
qed

lemma no_words: "word_tokens (lower ''!!!'') = []"
  by (simp only: lower_def matcher_eval char_eval list_eval cong: eval_congs)

text \<open>
  A text without a word token has no filler rate: \<open>filler_word_score\<close> returns 0 for
  it, which is the score of no band.
\<close>

theorem filler_no_words_counterexample:
  "word_tokens (lower ''!!!'') = [] \<and> fst (filler_word_score ''!!!'' 15) = 0 \<and>
   fst (filler_word_score ''!!!'' 15) \<notin> {15, 12, 9, 6, 3} \<and>
   fst (filler_word_score ''!!!'' 15) \<noteq>
     filler_band (real (filler_occurrences ''!!!'') /
                  real (length (word_tokens (lower ''!!!''))) * 100)"
  by (simp add: filler_score_no_words [OF no_words] no_words filler_band_def)

text \<open>
  Claim C5, as amended. For every text with at least one word token,
  \<open>filler_word_score\<close> counts the matches of \<open>\bfiller\b\<close> in the lower-cased text for
  each filler (occurrences with a word boundary on either side, lemma
  \<open>bounded_literal_match\<close>), computes rate = (total filler occurrences / total words) * 100, and scores
  15 for rate \<open>\<le>\<close> 3, 12 for \<open>\<le>\<close> 6, 9 for \<open>\<le>\<close> 9, 6 for \<open>\<le>\<close> 12 and 3 above 12; for a text
  without a word token it returns the score 0 and no details. The text
  \<open>the software team built the software\<close> has no match of the filler \<open>so\<close> (and filler
  count 0), and \<open>so so so\<close> has rate 100 and score 3.
\<close>

theorem filler_rate_bands:
  "(word_tokens (lower text) \<noteq> [] \<longrightarrow>
      fst (filler_word_score text 15) =
        filler_band (real (filler_occurrences text) /
                     real (length (word_tokens (lower text))) * 100)) \<and>
   (word_tokens (lower text) = [] \<longrightarrow> filler_word_score text 15 = (0, NoDetails)) \<and>
   re_findall (bounded (Lit ''so'')) (lower ''the software team built the software'') = [] \<and>
   filler_word_score ''the software team built the software'' 15 = (15, FillerDetails 0 0 []) \<and>
   filler_word_score ''so so so'' 15 = (3, FillerDetails 100 3 [''so (3)''])"
proof -
  have "word_tokens (lower ''the software team built the software'') \<noteq> []"
    by (simp only: lower_def matcher_eval char_eval list_eval cong: eval_congs; simp)
  then have "filler_word_score ''the software team built the software'' 15 =
               (15, FillerDetails 0 0 [])"
    by (simp add: filler_word_score_def Let_def fold_count_filler_none [OF software_fillers]
          py_round_def round_half_even_def)
  moreover have "filler_word_score ''so so so'' 15 = (3, FillerDetails 100 3 [''so (3)''])"
    by (simp add: filler_word_score_def Let_def so_so_so_words so_so_so_fold py_round_def
          round_half_even_def)
  ultimately show ?thesis
    using filler_score_words [of "text"] filler_score_no_words [of "text"] software_tokens
    by blast
qed

theorem filler_rate_bands_witness:
  "word_tokens (lower ''so so so'') \<noteq> [] \<and>
   fst (filler_word_score ''so so so'' 15) =
     filler_band (real (filler_occurrences ''so so so'') /
                  real (length (word_tokens (lower ''so so so''))) * 100) \<and>
   word_tokens (lower ''!!!'') = [] \<and> filler_word_score ''!!!'' 15 = (0, NoDetails)"
  using filler_rate_bands [of "''so so so''"] filler_rate_bands [of "''!!!''"]
  by (simp add: so_so_so_words no_words)

section \<open>Flow\<close>

lemma match_starts_offsets: "match_starts ps t = all_offsets ps t"
  by (induction ps) (simp_all add: all_offsets_def)

lemma position_of_anchor:
  "g \<in> set sequence \<Longrightarrow> position_of (group_positions t) g = anchor g t"
  by (auto simp add: sequence_def position_of_def group_positions_def groups_map_def anchor_def
        group_patterns_def average_position_def match_starts_offsets Let_def)

lemma loop_pairs_eval: "loop_pairs = [(0, 1), (0, 2), (0, 3), (1, 2), (1, 3), (2, 3)]"
  by (simp add: loop_pairs_def sequence_def upt_rec)

lemma ordered_pairs_loop:
  "ordered_pairs = map (\<lambda>(i, j). (sequence ! i, sequence ! j)) loop_pairs"
  by (simp add: loop_pairs_eval ordered_pairs_def sequence_def)

lemma count_pair_step:
  "count_pair ps (i, j) (c, n) =
     (if position_of ps (sequence ! i) \<noteq> None \<and> position_of ps (sequence ! j) \<noteq> None
      then (if the (position_of ps (sequence ! i)) < the (position_of ps (sequence ! j))
            then (Suc c, Suc n) else (c, Suc n))
      else (c, n))"
  by (cases "position_of ps (sequence ! i)"; cases "position_of ps (sequence ! j)")
     (simp_all add: count_pair_def)

lemma fold_count_pair:
  "fold (count_pair ps) xs (c, n) =
     (c + length (filter (\<lambda>(i, j). the (position_of ps (sequence ! i)) < the (position_of ps (sequence ! j)))
            (filter (\<lambda>(i, j). position_of ps (sequence ! i) \<noteq> None \<and>
                                position_of ps (sequence ! j) \<noteq> None) xs)),
      n + length (filter (\<lambda>(i, j). position_of ps (sequence ! i) \<noteq> None \<and>
                                position_of ps (sequence ! j) \<noteq> None) xs))"
proof (induction xs arbitrary: c n)
  case Nil
  then show ?case by simp
next
  case (Cons x xs)
  obtain i j where x: "x = (i, j)" by (cases x)
  have "fold (count_pair ps) (x # xs) (c, n) = fold (count_pair ps) xs (count_pair ps (i, j) (c, n))"
    by (simp add: x)
  then show ?case
    unfolding count_pair_step by (simp add: x Cons.IH)
qed

lemma loop_pairs_in_sequence:
  "(i, j) \<in> set loop_pairs \<Longrightarrow> sequence ! i \<in> set sequence \<and> sequence ! j \<in> set sequence"
  by (auto simp add: loop_pairs_eval sequence_def)

lemma evaluable_pairs_loop:
  "evaluable_pairs t =
     map (\<lambda>(i, j). (sequence ! i, sequence ! j))
       (filter (\<lambda>(i, j). position_of (group_positions t) (sequence ! i) \<noteq> None \<and>
                          position_of (group_positions t) (sequence ! j) \<noteq> None) loop_pairs)"
proof -
  have "filter (\<lambda>(i, j). position_of (group_positions t) (sequence ! i) \<noteq> None \<and>
                          position_of (group_positions t) (sequence ! j) \<noteq> None) loop_pairs =
        filter (\<lambda>(i, j). anchor (sequence ! i) t \<noteq> None \<and> anchor (sequence ! j) t \<noteq> None) loop_pairs"
    by (rule filter_cong) (auto simp add: position_of_anchor dest: loop_pairs_in_sequence)
  then show ?thesis
    by (simp add: evaluable_pairs_def ordered_pairs_loop filter_map comp_def case_prod_unfold)
qed

lemma correct_pairs_loop:
  "correct_pairs_of t =
     map (\<lambda>(i, j). (sequence ! i, sequence ! j))
       (filter (\<lambda>(i, j). the (position_of (group_positions t) (sequence ! i)) <
                          the (position_of (group_positions t) (sequence ! j)))
          (filter (\<lambda>(i, j). position_of (group_positions t) (sequence ! i) \<noteq> None \<and>
                             position_of (group_positions t) (sequence ! j) \<noteq> None) loop_pairs))"
proof -
  let ?E = "filter (\<lambda>(i, j). position_of (group_positions t) (sequence ! i) \<noteq> None \<and>
                             position_of (group_positions t) (sequence ! j) \<noteq> None) loop_pairs"
  have "filter (\<lambda>(i, j). the (position_of (group_positions t) (sequence ! i)) <
                          the (position_of (group_positions t) (sequence ! j))) ?E =
        filter (\<lambda>(i, j). the (anchor (sequence ! i) t) < the (anchor (sequence ! j) t)) ?E"
    by (rule filter_cong) (auto simp add: position_of_anchor dest: loop_pairs_in_sequence)
  then show ?thesis
    by (simp add: correct_pairs_of_def evaluable_pairs_loop filter_map comp_def case_prod_unfold)
qed

text \<open>
  Claim C6. For every text, the score of \<open>flow_score\<close> is the one the specification
  describes: each of the four groups is anchored at the average offset of all matches of
  all its patterns in the lower-cased text (no anchor when there is no match); of the six
  ordered pairs of groups, those with two anchors are evaluable and those whose earlier
  anchor is strictly smaller are correct; the score is (correct / evaluable) * 5, and with
  no evaluable pair it is 3 if the basic-info group has a match and 0 otherwise.
\<close>

theorem flow_score_is_flow_spec: "fst (flow_score text 5) = flow_spec (lower text)"
proof -
  have basic: "position_of (group_positions (lower text)) ''basic'' = anchor ''basic'' (lower text)"
    by (rule position_of_anchor) (simp add: sequence_def)
  show ?thesis
    by (simp add: flow_score_def flow_spec_def lower_and_clean_def Let_def fold_count_pair
          evaluable_pairs_loop correct_pairs_loop basic)
qed

lemma group_positions_unfold:
  "group_positions t =
     [(''sal'', average_position (match_starts (group_patterns ''sal'') t)),
      (''basic'', average_position (match_starts (group_patterns ''basic'') t)),
      (''add'', average_position (match_starts (group_patterns ''add'') t)),
      (''end'', average_position (match_starts (group_patterns ''end'') t))]"
  by (simp add: group_positions_def groups_map_def group_patterns_def)

lemma short_flow: "flow_score ''Hello, my name is Ravi and my hobby is chess. Thank you'' 5 = (5, FlowPairs 6 6)"
proof -
  have "map (\<lambda>g. match_starts (group_patterns g)
               (lower ''Hello, my name is Ravi and my hobby is chess. Thank you''))
          [''sal'', ''basic'', ''add'', ''end''] = [[0], [10, 7, 7], [30], [46]]"
    by (simp only: group_patterns_eval keyword_patterns_eval lower_def matcher_eval
          char_eval list_eval cong: eval_congs; simp)
  then show ?thesis
    by (simp add: flow_score_def Let_def lower_and_clean_def group_positions_unfold
          average_position_def position_of_def loop_pairs_eval count_pair_def sequence_def)
qed

theorem flow_score_is_flow_spec_witness:
  "flow_spec (lower ''Hello, my name is Ravi and my hobby is chess. Thank you'') = 5"
  using flow_score_is_flow_spec [of "''Hello, my name is Ravi and my hobby is chess. Thank you''"]
  by (simp add: short_flow)

section \<open>Keyword presence\<close>

lemma word_ahead_append: "\<not> is_word c \<Longrightarrow> word_ahead (s @ c # b) = word_ahead s"
  by (cases s) simp_all

lemma lit_at_append:
  "(n', w', s') \<in> set (lit_at l n w s) \<Longrightarrow> (n', w', s' @ u) \<in> set (lit_at l n w (s @ u))"
proof (induction l n w s rule: lit_at.induct)
  case (1 n w s)
  then show ?case by simp
next
  case (2 x xs n w)
  then show ?case by simp
next
  case (3 x xs n w c s)
  then show ?case by (cases "x = c") simp_all
qed

lemma star_at_append:
  "(n', w', s') \<in> set (star_at k n w s) \<Longrightarrow> (n', w', s' @ u) \<in> set (star_at k n w (s @ u))"
proof (induction s arbitrary: n w)
  case Nil
  then show ?case by (cases u) auto
next
  case (Cons c s)
  then show ?case by (cases "in_class k c") auto
qed

lemma ends_append:
  assumes "\<not> is_word c"
  shows "(n', w', s') \<in> set (ends r n w s) \<Longrightarrow>
         (n', w', s' @ c # b) \<in> set (ends r n w (s @ c # b))"
proof (induction r arbitrary: n w s n' w' s')
  case (Lit l)
  then show ?case by (simp add: lit_at_append)
next
  case (Cls k)
  then show ?case by (cases s) (auto split: if_splits)
next
  case Bound
  then show ?case using assms by (auto simp add: word_ahead_append split: if_splits)
next
  case (Plus k)
  then show ?case by (cases s) (auto simp add: star_at_append split: if_splits)
next
  case (Star k)
  then show ?case by (simp add: star_at_append)
next
  case (Cat r1 r2)
  from Cat.prems obtain m v t where mid: "(m, v, t) \<in> set (ends r1 n w s)"
    and fin: "(n', w', s') \<in> set (ends r2 m v t)"
    by auto
  from Cat.IH(1) [OF mid] Cat.IH(2) [OF fin] show ?case by force
next
  case (Alt r1 r2)
  then show ?case by auto
qed

lemma ends_nonempty_append:
  assumes "\<not> is_word c" "ends r n w s \<noteq> []"
  shows "ends r n w (s @ c # b) \<noteq> []"
proof -
  from assms(2) obtain n' w' s' where "(n', w', s') \<in> set (ends r n w s)"
    by (cases "ends r n w s") auto
  from ends_append [OF assms(1) this, where b = b] show ?thesis by auto
qed

lemma search_at_append_left:
  "\<not> is_word c \<Longrightarrow> search_at r w a \<Longrightarrow> search_at r w (a @ c # b)"
proof (induction a arbitrary: w)
  case Nil
  then show ?case using ends_nonempty_append [of c r 0 w "[]" b] by simp
next
  case (Cons x a)
  then show ?case using ends_nonempty_append [of c r 0 w "x # a" b] by auto
qed

lemma search_at_append_right:
  "\<not> is_word c \<Longrightarrow> search_at r False b \<Longrightarrow> search_at r w (a @ c # b)"
  by (induction a arbitrary: w) simp_all

lemma re_search_append_left: "\<not> is_word c \<Longrightarrow> re_search r a \<Longrightarrow> re_search r (a @ c # b)"
  by (simp add: re_search_def search_at_append_left)

lemma re_search_append_right: "\<not> is_word c \<Longrightarrow> re_search r b \<Longrightarrow> re_search r (a @ c # b)"
  by (simp add: re_search_def search_at_append_right)

lemma any_search_iff: "any_search ps t \<longleftrightarrow> (\<exists>p \<in> set ps. re_search p t)"
  by (induction ps) auto

lemma lower_append: "lower (a @ b) = lower a @ lower b"
  by (simp add: lower_def)

lemma blank_not_word: "\<not> is_word (to_lower (to_lower CHR '' ''))"
  by (simp add: to_lower_def is_upper_def is_word_def is_lower_def is_digit_def code_of_def)

lemma concept_found_append:
  assumes "concept_found t k \<or> concept_found p k"
  shows "concept_found (t @ '' '' @ p) k"
proof -
  let ?c = "to_lower (to_lower CHR '' '')"
  have split: "lower (lower (t @ CHR '' '' # p)) = lower (lower t) @ ?c # lower (lower p)"
    by (simp add: lower_def)
  from assms obtain r where r: "r \<in> set (keyword_patterns k)"
    and "re_search r (lower (lower t)) \<or> re_search r (lower (lower p))"
    by (auto simp add: concept_found_def find_any_pattern_def lower_and_clean_def any_search_iff)
  then have "re_search r (lower (lower t) @ ?c # lower (lower p))"
    using re_search_append_left [OF blank_not_word] re_search_append_right [OF blank_not_word]
    by blast
  then have "re_search r (lower (lower (t @ CHR '' '' # p)))"
    by (simp only: split)
  with r show ?thesis
    by (auto simp add: concept_found_def find_any_pattern_def lower_and_clean_def any_search_iff)
qed

lemma length_filter_mono:
  "(\<And>x. x \<in> set xs \<Longrightarrow> P x \<Longrightarrow> Q x) \<Longrightarrow> length (filter P xs) \<le> length (filter Q xs)"
  by (induction xs) auto

lemma length_filter_strict:
  "(\<And>x. x \<in> set xs \<Longrightarrow> P x \<Longrightarrow> Q x) \<Longrightarrow> k \<in> set xs \<Longrightarrow> \<not> P k \<Longrightarrow> Q k \<Longrightarrow>
   length (filter P xs) < length (filter Q xs)"
proof (induction xs)
  case Nil
  then show ?case by simp
next
  case (Cons x xs)
  show ?case
  proof (cases "k = x")
    case True
    have "length (filter P xs) \<le> length (filter Q xs)"
      using Cons.prems(1) by (intro length_filter_mono) auto
    with True Cons.prems(3,4) show ?thesis by simp
  next
    case False
    with Cons.prems have "k \<in> set xs" by simp
    then have "length (filter P xs) < length (filter Q xs)"
      using Cons.IH Cons.prems by auto
    moreover have "P x \<Longrightarrow> Q x" using Cons.prems(1) by simp
    ultimately show ?thesis by auto
  qed
qed

lemma keyword_score_formula:
  "fst (keyword_presence_score t 30) =
     min (real (length (filter (concept_found t) must)) / 6 * 20 +
          real (length (filter (concept_found t) optional)) / 3 * 10) 30"
  by (simp add: keyword_presence_score_def Let_def concept_found_def must_def optional_def)

text \<open>
  Claim C7, as amended. The Keyword Presence score is
  (found mandatory / 6) * 20 + (found optional / 3) * 10, clamped to 30 (lemma
  \<open>keyword_score_formula\<close>). For every transcript, appending a blank and a phrase in which
  a mandatory concept is found that is not found in the transcript does not decrease the
  score: it raises it.
\<close>

theorem keyword_never_decreases:
  assumes "k \<in> set must" "\<not> concept_found t k" "concept_found p k"
  shows "fst (keyword_presence_score t 30) < fst (keyword_presence_score (t @ '' '' @ p) 30)"
proof -
  let ?t' = "t @ '' '' @ p"
  have mono: "concept_found t x \<Longrightarrow> concept_found ?t' x" for x
    using concept_found_append [of t x p] by simp
  have "concept_found ?t' k" using concept_found_append [of t k p] assms(3) by simp
  then have m: "length (filter (concept_found t) must) < length (filter (concept_found ?t') must)"
    using length_filter_strict [of must "concept_found t" "concept_found ?t'" k] mono assms(1,2)
    by blast
  have o: "length (filter (concept_found t) optional) \<le> length (filter (concept_found ?t') optional)"
    using length_filter_mono [of optional "concept_found t" "concept_found ?t'"] mono by blast
  have bm: "length (filter (concept_found ?t') must) \<le> 6"
    using length_filter_le [of "concept_found ?t'" must] by (simp add: must_def)
  have bo: "length (filter (concept_found ?t') optional) \<le> 3"
    using length_filter_le [of "concept_found ?t'" optional] by (simp add: optional_def)
  define a where "a = real (length (filter (concept_found t) must))"
  define a' where "a' = real (length (filter (concept_found ?t') must))"
  define b where "b = real (length (filter (concept_found t) optional))"
  define b' where "b' = real (length (filter (concept_found ?t') optional))"
  have "a < a'" "b \<le> b'" "a' \<le> 6" "b' \<le> 3"
    using m o bm bo by (simp_all add: a_def a'_def b_def b'_def)
  then have "min (a / 6 * 20 + b / 3 * 10) 30 < min (a' / 6 * 20 + b' / 3 * 10) 30"
    by (simp add: min_def)
  then show ?thesis
    unfolding keyword_score_formula a_def a'_def b_def b'_def .
qed

lemma found_before:
  "filter (concept_found ''i am 1'') must = [''name'', ''age'']"
  "filter (concept_found ''i am 1'') optional = []"
  by (simp_all only: score_eval re_eval char_eval list_eval
        cong: if_weak_cong list.case_cong_weak)

lemma found_after:
  "filter (concept_found (''i am 1'' @ ''8th'')) must = [''name'']"
  "filter (concept_found (''i am 1'' @ ''8th'')) optional = []"
  by (simp_all only: score_eval re_eval char_eval list_eval
        cong: if_weak_cong list.case_cong_weak)

lemma found_phrase:
  "concept_found ''8th'' ''class''" "\<not> concept_found ''i am 1'' ''class''"
  by (simp_all only: score_eval re_eval char_eval list_eval
        cong: if_weak_cong list.case_cong_weak)

text \<open>
  Without the blank the phrase can join the last word of the transcript: \<open>i am 1\<close>
  has a name and an age, \<open>8th\<close> names a class, and \<open>i am 18th\<close> has only the name left.
\<close>

theorem keyword_append_counterexample:
  "concept_found ''8th'' ''class'' \<and> \<not> concept_found ''i am 1'' ''class'' \<and>
   fst (keyword_presence_score (''i am 1'' @ ''8th'') 30) < fst (keyword_presence_score ''i am 1'' 30)"
  unfolding keyword_score_formula found_before found_after
  using found_phrase by simp

theorem keyword_never_decreases_witness:
  "''class'' \<in> set must \<and> \<not> concept_found ''i am 1'' ''class'' \<and>
   concept_found ''8th'' ''class'' \<and>
   fst (keyword_presence_score ''i am 1'' 30) <
     fst (keyword_presence_score (''i am 1'' @ '' '' @ ''8th'') 30)"
proof -
  have k: "''class'' \<in> set must" by (simp add: must_def)
  show ?thesis
    using k found_phrase keyword_never_decreases [OF k found_phrase(2) found_phrase(1)]
    by simp
qed

section \<open>The sample introduction\<close>

lemma lower_sample: "lower sample_text = sample_lower" "lower sample_lower = sample_lower"
  by (simp_all only: sample_text_def sample_lower_def lower_def char_eval list_eval
        cong: if_weak_cong)

lemmas lower_sample_unfolded = lower_sample(2) [unfolded sample_lower_def]

lemma sample_starts_sal: "match_starts (group_patterns ''sal'') sample_lower = [0, 0, 16, 16]"
  by (simp only: group_patterns_eval keyword_patterns_eval sample_lower_def matcher_eval
      char_eval list_eval cong: if_weak_cong list.case_cong_weak; simp)

lemma sample_starts_end: "match_starts (group_patterns ''end'') sample_lower = [377]"
  by (simp only: group_patterns_eval keyword_patterns_eval sample_lower_def matcher_eval
      char_eval list_eval cong: if_weak_cong list.case_cong_weak; simp)

lemma sample_starts_basic:
  "match_starts (group_patterns ''basic'') sample_lower =
     [53, 50, 16, 115, 42, 50, 123, 120, 115, 82, 107, 73]"
  by (simp only: group_patterns_eval keyword_patterns_eval sample_lower_def matcher_eval
      char_eval list_eval cong: if_weak_cong list.case_cong_weak; simp)

lemma sample_starts_add:
  "match_starts (group_patterns ''add'') sample_lower = [206, 215, 215, 249, 338, 271]"
  by (simp only: group_patterns_eval keyword_patterns_eval sample_lower_def matcher_eval
      char_eval list_eval cong: if_weak_cong list.case_cong_weak; simp)

lemma sample_salutation: "any_search SALUTATIONS_excellent sample_lower"
  by (simp only: SALUTATIONS_excellent_def any_search.simps sample_lower_def matcher_eval
      char_eval list_eval cong: eval_congs)

lemma sample_concepts:
  "filter (concept_found sample_text) must = must"
  "filter (concept_found sample_text) optional = optional"
  by (simp_all only: score_eval lower_sample(1) lower_sample_unfolded sample_lower_def
      matcher_eval char_eval list_eval cong: eval_congs)

lemma sample_tokens:
  "word_tokens sample_lower =
    [''hello'', ''everyone'', ''i'', ''am'', ''excited'', ''to'',
  ''introduce'', ''myself'', ''my'', ''name'', ''is'', ''rahul'', ''and'',
  ''i'', ''study'', ''in'', ''class'', ''10'', ''at'', ''delhi'',
  ''public'', ''school'', ''i'', ''am'', ''15'', ''years'', ''old'',
  ''and'', ''live'', ''with'', ''my'', ''family'', ''which'', ''includes'',
  ''my'', ''parents'', ''and'', ''younger'', ''sister'', ''my'', ''hobby'',
  ''is'', ''playing'', ''chess'', ''and'', ''i'', ''have'', ''a'',
  ''strong'', ''interest'', ''in'', ''coding'', ''a'', ''fun'', ''fact'',
  ''about'', ''me'', ''is'', ''that'', ''i'', ''can'', ''solve'', ''a'',
  ''cube'', ''in'', ''under'', ''a'', ''minute'', ''my'', ''goal'', ''is'',
  ''to'', ''become'', ''a'', ''software'', ''engineer'', ''thank'', ''you'',
  ''for'', ''listening'']"
  by (simp only: sample_lower_def matcher_eval char_eval list_eval cong: eval_congs)

lemma sample_word_count: "length (word_tokens sample_text) = 80"
  by (simp only: sample_text_def matcher_eval char_eval list_eval cong: eval_congs; simp)

lemma sample_distinct: "card (set (word_tokens sample_lower)) = 58"
  unfolding sample_tokens List.card_set
  by (simp only: remdups.simps char_eval list_eval cong: eval_congs; simp)

lemma sample_fillers:
  "list_all (\<lambda>filler. re_findall (bounded (Lit filler)) sample_lower = []) FILLER_WORDS"
  by (simp only: FILLER_WORDS_def list.pred_inject sample_lower_def matcher_eval char_eval list_eval
        cong: eval_congs)

lemma sample_token_count: "length (word_tokens sample_lower) = 80"
  unfolding sample_tokens by simp

lemma sample_sentences:
  "map strip (filter (\<lambda>s. strip s \<noteq> []) (re_split (Plus (OneOf ''.!?'')) sample_text)) =
    [''Hello everyone, I am excited to introduce myself'',
  ''My name is Rahul and I study in class 10 at Delhi Public School'',
  ''I am 15 years old and live with my family which includes my parents and younger sister'',
  ''My hobby is playing chess and I have a strong interest in coding'',
  ''A fun fact about me is that I can solve a cube in under a minute'',
  ''My goal is to become a software engineer'', ''Thank you for listening'']"
  by (simp only: sample_text_def re_split_def pieces.simps strip_def rev.simps dropWhile.simps
        matcher_eval char_eval list_eval arith_eval cong: eval_congs)

lemma sample_lone_i:
  "re_findall (seq [Plus Space, Lit ''i'', Plus Space]) ('' '' @ sample_text @ '' '') = []"
  by (simp only: sample_text_def matcher_eval char_eval list_eval cong: eval_congs)

lemma sample_repeated: "scan repeated_word_ends False sample_lower 0 0 = []"
  by (simp only: sample_lower_def repeated_word_ends_def word_ahead.simps matcher_eval char_eval list_eval
        cong: eval_congs)

lemma sample_sentiment_hits:
  "card (set (word_tokens sample_lower) \<inter> pos_words) = 2"
  "card (set (word_tokens sample_lower) \<inter> neg_words) = 0"
  by (simp_all add: sample_tokens pos_words_def neg_words_def)

lemma sample_salutation_score:
  "detect_salutation_level sample_text = (5, SalutationDetails ''Excellent'')"
  by (simp add: detect_salutation_level_def lower_and_clean_def lower_sample sample_salutation)

lemma sample_keyword_score:
  "keyword_presence_score sample_text 30 = (30, KeywordDetails must optional 30)"
  unfolding keyword_presence_score_def Let_def
    sample_concepts [unfolded concept_found_def]
  by (simp add: must_def optional_def)

lemma sample_flow_score: "flow_score sample_text 5 = (5, FlowPairs 6 6)"
  by (simp add: flow_score_def Let_def lower_and_clean_def lower_sample group_positions_unfold
        sample_starts_sal sample_starts_basic sample_starts_add sample_starts_end
        average_position_def position_of_def loop_pairs_eval count_pair_def sequence_def)

lemma sample_speech_score: "speech_rate_score sample_text 30 10 = (6, SpeechDetails 160 80 30)"
  by (simp add: speech_rate_score_def Let_def sample_word_count py_round_def round_half_even_def)

lemma sample_grammar_score: "grammar_score sample_text 10 = (10, GrammarDetails 0 0)"
  unfolding grammar_score_def Let_def sample_sentences sample_lone_i lower_sample(1)
    sample_repeated sample_word_count
  by (simp only: filter.simps list.sel char_eval list_eval cong: eval_congs;
      simp add: py_round_def round_half_even_def)

lemma sample_vocab_score: "vocab_ttr_score sample_text 10 = (8, VocabDetails (72 / 100))"
  unfolding vocab_ttr_score_def Let_def lower_sample(1) sample_distinct sample_token_count
  by (simp add: py_round_def round_half_even_def)

lemma sample_filler_score: "filler_word_score sample_text 15 = (15, FillerDetails 0 0 [])"
  unfolding filler_word_score_def Let_def lower_sample(1) sample_token_count
    fold_count_filler_none [of sample_text, unfolded lower_sample(1), OF sample_fillers]
  by (simp add: py_round_def round_half_even_def)

lemma sample_sentiment_score:
  "sentiment_score None sample_text 15 = (15, SentimentDetails (6 / 10) ''Heuristic'')"
  unfolding sentiment_score_def Let_def lower_sample(1) sample_sentiment_hits
  by simp

lemma sample_sentiment_backend:
  "fst (sentiment_score (Some polarity) sample_text 15) =
     (if polarity sample_text \<ge> 5/10 then 15 else if polarity sample_text \<ge> 3/10 then 12
      else if polarity sample_text \<ge> 0 then 9 else if polarity sample_text \<ge> - (2/10) then 6
      else 3)"
  by (simp add: sentiment_score_def Let_def)

lemma sample_not_empty: "sample_text \<noteq> []"
  by (simp add: sample_text_def)

text \<open>
  Claim C8. The sample introduction with a duration of 30 seconds: with the heuristic
  sentiment backend the scores are Salutation 5, Keyword Presence 30 with all nine
  concepts found, Flow 5 (all six pairs in order), Speech Rate 6, Grammar 10, Vocabulary 8,
  Filler Words 15 and Sentiment 15, in total 94; with the \<open>vaderSentiment\<close> backend the
  first three scores are the same and the total is above 85 whenever the backend gives the
  sample a compound score that is not negative.
\<close>

theorem sample_introduction:
  "evaluate_transcript None (PyStr sample_text) rubric_df 30 =
     (94,
      [\<lparr>name = ''Salutation Level'', score = 5, weight = 5,
         details = SalutationDetails ''Excellent''\<rparr>,
       \<lparr>name = ''Keyword Presence'', score = 30, weight = 30,
         details = KeywordDetails [''name'', ''age'', ''school'', ''class'', ''family'', ''hobby'']
                     [''goal'', ''fun_fact'', ''interest''] 30\<rparr>,
       \<lparr>name = ''Flow (Order)'', score = 5, weight = 5, details = FlowPairs 6 6\<rparr>,
       \<lparr>name = ''Speech Rate (WPM)'', score = 6, weight = 10,
         details = SpeechDetails 160 80 30\<rparr>,
       \<lparr>name = ''Grammar Errors'', score = 10, weight = 10, details = GrammarDetails 0 0\<rparr>,
       \<lparr>name = ''Vocabulary (TTR)'', score = 8, weight = 10,
         details = VocabDetails (72 / 100)\<rparr>,
       \<lparr>name = ''Filler Word Rate'', score = 15, weight = 15,
         details = FillerDetails 0 0 []\<rparr>,
       \<lparr>name = ''Sentiment'', score = 15, weight = 15,
         details = SentimentDetails (6 / 10) ''Heuristic''\<rparr>]) \<and>
   (0 \<le> polarity sample_text \<longrightarrow>
      85 < fst (evaluate_transcript (Some polarity) (PyStr sample_text) rubric_df 30) \<and>
      map score (take 3 (snd (evaluate_transcript (Some polarity) (PyStr sample_text) rubric_df 30)))
        = [5, 30, 5])"
  by (simp add: evaluate_transcript_str [OF sample_not_empty] mk_criterion_def
        sample_salutation_score sample_keyword_score sample_flow_score sample_speech_score
        sample_grammar_score sample_vocab_score sample_filler_score sample_sentiment_score
        sample_sentiment_backend)
     (simp add: must_def optional_def)

theorem sample_introduction_witness:
  "(0::real) \<le> (\<lambda>t. 9 / 10) sample_text \<and>
   85 < fst (evaluate_transcript None (PyStr sample_text) () 30) \<and>
   85 < fst (evaluate_transcript (Some (\<lambda>t. 9 / 10)) (PyStr sample_text) () 30)"
  using sample_introduction [of "()" "\<lambda>t. 9 / 10"] by simp

end
